theory Spec2Isabelle
  imports Main "HOL-Library.Word"
begin

unbundle bit_operations_syntax

section \<open>Machine types\<close>

text \<open>
  The embedding follows \<^verbatim>\<open>lib/compress/zstdmt_compress.c\<close> on a 64-bit target:
  \<^verbatim>\<open>size_t\<close> and \<^verbatim>\<open>unsigned long long\<close> are 64-bit words, \<^verbatim>\<open>unsigned\<close> and \<^verbatim>\<open>U32\<close> are
  32-bit words, and a pointer is a 64-bit address with \<^verbatim>\<open>NULL\<close> as 0.  Arithmetic on words
  wraps around as the C arithmetic on unsigned types does.
\<close>

type_synonym size_t = "64 word"
type_synonym unsigned = "32 word"
type_synonym U64 = "64 word"
type_synonym ptr = "64 word"
type_synonym byte = "8 word"

abbreviation (input) NULL :: ptr where
  "NULL \<equiv> 0"

text \<open>
  A \<^verbatim>\<open>size_t\<close> result of the library is a byte count or an error code (\<^verbatim>\<open>ERROR(name)\<close>,
  tested with \<^verbatim>\<open>ZSTD_isError\<close>, both declared outside this file).  The model keeps the two
  apart in a sum: \<open>Inl\<close> is the error, \<open>Inr\<close> the count.
\<close>

datatype ZSTD_ErrorCode =
    memory_allocation
  | dstSize_tooSmall
  | stage_wrong
  | parameter_unsupported
  | dictionary_wrong
  | inner_error nat

type_synonym result = "ZSTD_ErrorCode + size_t"

definition ZSTD_isError :: "result \<Rightarrow> bool" where
  "ZSTD_isError r = (case r of Inl _ \<Rightarrow> True | Inr _ \<Rightarrow> False)"

section \<open>Tuning parameters\<close>

definition ZSTDMT_NBTHREADS_MAX :: unsigned where
  "ZSTDMT_NBTHREADS_MAX = 200"

text \<open>\<^verbatim>\<open>ZSTDMT_JOBSIZE_MAX\<close> on a 64-bit target: \<^verbatim>\<open>2 GB\<close>, which fits the \<^verbatim>\<open>unsigned\<close> job size.\<close>

definition ZSTDMT_JOBSIZE_MAX :: unsigned where
  "ZSTDMT_JOBSIZE_MAX = 2 * 2 ^ 30"

definition ZSTDMT_OVERLAPLOG_DEFAULT :: unsigned where
  "ZSTDMT_OVERLAPLOG_DEFAULT = 6"

text \<open>
  Left shift of a \<^verbatim>\<open>size_t\<close> by an \<^verbatim>\<open>unsigned\<close> count.  C leaves a shift by 64 or more
  undefined; \<open>push_bit\<close> yields 0 there.
\<close>

definition shl :: "size_t \<Rightarrow> unsigned \<Rightarrow> size_t" where
  "shl x n = push_bit (unat n) x"

section \<open>Memory\<close>

text \<open>
  Buffers are address ranges of one flat byte memory.  \<open>copy_bytes\<close> is \<^verbatim>\<open>memcpy\<close> and
  \<^verbatim>\<open>memmove\<close> (every source byte is read before any byte is written), \<open>read_bytes\<close> lists
  the bytes of a range, and \<open>MEM_writeLE32\<close> stores a 32-bit value with the low byte first.
\<close>

type_synonym memory = "ptr \<Rightarrow> byte"

definition copy_bytes :: "memory \<Rightarrow> ptr \<Rightarrow> ptr \<Rightarrow> size_t \<Rightarrow> memory" where
  "copy_bytes m d s n = (\<lambda>a. if a - d < n then m (s + (a - d)) else m a)"

definition read_bytes :: "memory \<Rightarrow> ptr \<Rightarrow> size_t \<Rightarrow> byte list" where
  "read_bytes m p n = map (\<lambda>i. m (p + of_nat i)) [0..<unat n]"

definition MEM_writeLE32 :: "memory \<Rightarrow> ptr \<Rightarrow> 32 word \<Rightarrow> memory" where
  "MEM_writeLE32 m p v =
     m(p := ucast v, p + 1 := ucast (drop_bit 8 v),
       p + 2 := ucast (drop_bit 16 v), p + 3 := ucast (drop_bit 24 v))"

text \<open>What the allocator is asked to do, in program order.\<close>

datatype mem_event =
    Malloc size_t ptr
  | Free ptr
  | FreeCCtx ptr

section \<open>Buffer pool\<close>

record buffer_t =
  start :: ptr
  bsize :: size_t

definition g_nullBuffer :: buffer_t where
  "g_nullBuffer = \<lparr>start = NULL, bsize = 0\<rparr>"

text \<open>
  \<^verbatim>\<open>bTable\<close> is the variable-size array at the end of the pool; the mutex and the custom
  allocator handle are not part of the model.
\<close>

record ZSTDMT_bufferPool =
  bufferSize :: size_t
  totalBuffers :: unsigned
  nbBuffers :: unsigned
  bTable :: "unsigned \<Rightarrow> buffer_t"

definition ZSTDMT_createBufferPool :: "unsigned \<Rightarrow> ZSTDMT_bufferPool" where
  "ZSTDMT_createBufferPool nbThreads =
     \<lparr>bufferSize = 64 * 2 ^ 10, totalBuffers = 2 * nbThreads + 3, nbBuffers = 0,
      bTable = (\<lambda>_. g_nullBuffer)\<rparr>"

definition ZSTDMT_setBufferSize :: "ZSTDMT_bufferPool \<Rightarrow> size_t \<Rightarrow> ZSTDMT_bufferPool" where
  "ZSTDMT_setBufferSize bufPool bSize = bufPool\<lparr>bufferSize := bSize\<rparr>"

text \<open>
  The tail of \<^verbatim>\<open>ZSTDMT_getBuffer\<close>: \<^verbatim>\<open>ZSTD_malloc(bSize)\<close> returned \<open>fresh\<close>, which is
  \<^verbatim>\<open>NULL\<close> when the allocation failed.
\<close>

definition new_buffer :: "ptr \<Rightarrow> size_t \<Rightarrow> buffer_t" where
  "new_buffer fresh bSize = \<lparr>start = fresh, bsize = (if fresh = NULL then 0 else bSize)\<rparr>"

text \<open>
  \<^verbatim>\<open>ZSTDMT_getBuffer(bufPool)\<close>.  The argument \<open>fresh\<close> is what \<^verbatim>\<open>ZSTD_malloc\<close> returns if the
  function gets as far as calling it.  The result is the buffer, the pool afterwards and
  the allocator calls made.
\<close>

definition ZSTDMT_getBuffer ::
  "ptr \<Rightarrow> ZSTDMT_bufferPool \<Rightarrow> buffer_t \<times> ZSTDMT_bufferPool \<times> mem_event list" where
  "ZSTDMT_getBuffer fresh bufPool =
     (let bSize = bufferSize bufPool in
      if nbBuffers bufPool \<noteq> 0 then
        let n = nbBuffers bufPool - 1;
            buf = bTable bufPool n;
            availBufferSize = bsize buf;
            pool1 = bufPool\<lparr>nbBuffers := n, bTable := (bTable bufPool)(n := g_nullBuffer)\<rparr>
        in if availBufferSize \<ge> bSize \<and> drop_bit 3 availBufferSize \<le> bSize
           then (buf, pool1, [])
           else (new_buffer fresh bSize, pool1, [Free (start buf), Malloc bSize fresh])
      else (new_buffer fresh bSize, bufPool, [Malloc bSize fresh]))"

definition ZSTDMT_releaseBuffer ::
  "ZSTDMT_bufferPool \<Rightarrow> buffer_t \<Rightarrow> ZSTDMT_bufferPool \<times> mem_event list" where
  "ZSTDMT_releaseBuffer bufPool buf =
     (if start buf = NULL then (bufPool, [])
      else if nbBuffers bufPool < totalBuffers bufPool
      then (bufPool\<lparr>bTable := (bTable bufPool)(nbBuffers bufPool := buf),
                     nbBuffers := nbBuffers bufPool + 1\<rparr>, [])
      else (bufPool, [Free (start buf)]))"

section \<open>Compression context pool\<close>

record ZSTDMT_CCtxPool =
  totalCCtx :: unsigned
  availCCtx :: unsigned
  cctx :: "unsigned \<Rightarrow> ptr"

text \<open>
  \<^verbatim>\<open>ZSTDMT_getCCtx(cctxPool)\<close>; \<open>created\<close> is what \<^verbatim>\<open>ZSTD_createCCtx_advanced\<close> returns if
  the pool has no context left (\<^verbatim>\<open>NULL\<close> when creation fails).
\<close>

definition ZSTDMT_getCCtx :: "ptr \<Rightarrow> ZSTDMT_CCtxPool \<Rightarrow> ptr \<times> ZSTDMT_CCtxPool" where
  "ZSTDMT_getCCtx created cctxPool =
     (if availCCtx cctxPool \<noteq> 0
      then (cctx cctxPool (availCCtx cctxPool - 1),
            cctxPool\<lparr>availCCtx := availCCtx cctxPool - 1\<rparr>)
      else (created, cctxPool))"

definition ZSTDMT_releaseCCtx ::
  "ZSTDMT_CCtxPool \<Rightarrow> ptr \<Rightarrow> ZSTDMT_CCtxPool \<times> mem_event list" where
  "ZSTDMT_releaseCCtx pool c =
     (if c = NULL then (pool, [])
      else if availCCtx pool < totalCCtx pool
      then (pool\<lparr>cctx := (cctx pool)(availCCtx pool := c),
                  availCCtx := availCCtx pool + 1\<rparr>, [])
      else (pool, [FreeCCtx c]))"

section \<open>Compression parameters\<close>

text \<open>
  \<^verbatim>\<open>ZSTD_CCtx_params\<close> is declared outside this file; the records below hold the fields
  that the multi-threading layer reads or writes.
\<close>

record ZSTD_compressionParameters =
  windowLog :: unsigned

record ZSTD_frameParameters =
  contentSizeFlag :: unsigned
  checksumFlag :: unsigned
  noDictIDFlag :: unsigned

record ZSTD_CCtx_params =
  cParams :: ZSTD_compressionParameters
  fParams :: ZSTD_frameParameters
  compressionLevel :: int
  forceWindow :: unsigned
  nbThreads :: unsigned
  jobSize :: unsigned
  overlapSizeLog :: unsigned
  ldmParams :: nat

definition zero_params :: ZSTD_CCtx_params where
  "zero_params =
     \<lparr>cParams = \<lparr>windowLog = 0\<rparr>,
      fParams = \<lparr>contentSizeFlag = 0, checksumFlag = 0, noDictIDFlag = 0\<rparr>,
      compressionLevel = 0, forceWindow = 0, nbThreads = 0, jobSize = 0,
      overlapSizeLog = 0, ldmParams = 0\<rparr>"

text \<open>\<^verbatim>\<open>ZSTDMT_initJobCCtxParams\<close>: a zeroed record with four members copied over.\<close>

definition ZSTDMT_initJobCCtxParams :: "ZSTD_CCtx_params \<Rightarrow> ZSTD_CCtx_params" where
  "ZSTDMT_initJobCCtxParams params =
     zero_params\<lparr>cParams := cParams params, fParams := fParams params,
                 compressionLevel := compressionLevel params,
                 ldmParams := ldmParams params\<rparr>"

text \<open>
  \<^verbatim>\<open>ZSTDMT_CCtxParam_setNbThreads(params, nbThreads)\<close>: the two \<^verbatim>\<open>if\<close> statements clamp the
  argument, then three fields are stored and the clamped value is returned as a \<^verbatim>\<open>size_t\<close>.
\<close>

definition ZSTDMT_CCtxParam_setNbThreads ::
  "ZSTD_CCtx_params \<Rightarrow> unsigned \<Rightarrow> ZSTD_CCtx_params \<times> size_t" where
  "ZSTDMT_CCtxParam_setNbThreads params n =
     (let n1 = (if n > ZSTDMT_NBTHREADS_MAX then ZSTDMT_NBTHREADS_MAX else n);
          n2 = (if n1 < 1 then 1 else n1)
      in (params\<lparr>nbThreads := n2, overlapSizeLog := ZSTDMT_OVERLAPLOG_DEFAULT, jobSize := 0\<rparr>,
          ucast n2))"

section \<open>One-shot partitioning\<close>

text \<open>
  \<^verbatim>\<open>ZSTDMT_computeNbChunks(srcSize, windowLog, nbThreads)\<close>.  The result is \<open>None\<close> where C
  leaves the computation undefined: a shift count of 64 or more, or a division by a
  \<^verbatim>\<open>passSizeMax\<close> of zero.  The two casts to \<^verbatim>\<open>unsigned\<close> keep the low 32 bits.
\<close>

definition ZSTDMT_computeNbChunks :: "size_t \<Rightarrow> unsigned \<Rightarrow> unsigned \<Rightarrow> unsigned option" where
  "ZSTDMT_computeNbChunks srcSize wLog nThreads =
     (let chunkSizeTarget = shl 1 (wLog + 2);
          chunkMaxSize = push_bit 2 chunkSizeTarget;
          passSizeMax = chunkMaxSize * ucast nThreads
      in if 64 \<le> wLog + 2 \<or> passSizeMax = 0 then None
         else
           let multiplier = (ucast (srcSize div passSizeMax) :: unsigned) + 1;
               nbChunksLarge = multiplier * nThreads;
               nbChunksMax = (ucast (srcSize div chunkSizeTarget) :: unsigned) + 1;
               nbChunksSmall = min nbChunksMax nThreads
           in Some (if multiplier > 1 then nbChunksLarge else nbChunksSmall))"

text \<open>
  The chunk size of \<^verbatim>\<open>ZSTDMT_compress_advanced_internal\<close>: \<^verbatim>\<open>proposedChunkSize\<close> is
  \<^verbatim>\<open>(srcSize + (nbChunks-1)) / nbChunks\<close>, where \<^verbatim>\<open>nbChunks-1\<close> is formed in \<^verbatim>\<open>unsigned\<close>
  and the sum and the quotient in \<^verbatim>\<open>size_t\<close> (\<open>None\<close> for the division by zero), and
  \<^verbatim>\<open>avgChunkSize\<close> is the conditional expression of the next line.
\<close>

definition proposedChunkSize :: "size_t \<Rightarrow> unsigned \<Rightarrow> size_t option" where
  "proposedChunkSize srcSize nbChunks =
     (if nbChunks = 0 then None
      else Some ((srcSize + ucast (nbChunks - 1)) div ucast nbChunks))"

definition avgChunkSize :: "size_t \<Rightarrow> size_t" where
  "avgChunkSize proposed =
     (if (proposed - 1) AND 0x1FFFF < 0x7FFF then proposed + 0xFFFF else proposed)"

text \<open>
  The overlap size of the one-shot path, from \<^verbatim>\<open>overlapSizeLog\<close> and \<^verbatim>\<open>windowLog\<close>.
\<close>

definition overlapSize :: "ZSTD_CCtx_params \<Rightarrow> size_t" where
  "overlapSize params =
     (let overlapRLog = (if overlapSizeLog params > 9 then 0 else 9 - overlapSizeLog params)
      in if overlapRLog \<ge> 9 then 0
         else shl 1 (windowLog (cParams params) - overlapRLog))"

text \<open>
  The partition rule in the words of the specification, over the natural numbers:
  target chunk \<open>1 << (W+2)\<close>, maximal chunk \<open>target << 2\<close>, \<open>perPass = maxChunk * T\<close>,
  \<open>m = srcSize / perPass + 1\<close>; \<open>m * T\<close> chunks when \<open>m > 1\<close>, else
  \<open>min T (srcSize / target + 1)\<close>.
\<close>

definition nbChunks_spec :: "nat \<Rightarrow> nat \<Rightarrow> nat \<Rightarrow> nat" where
  "nbChunks_spec srcSize W T =
     (let target = 2 ^ (W + 2);
          maxChunk = target * 2 ^ 2;
          perPass = maxChunk * T;
          m = srcSize div perPass + 1
      in if m > 1 then m * T else min T (srcSize div target + 1))"

text \<open>
  The even split in the words of the specification: the ceiling of \<open>srcSize / nbChunks\<close>,
  raised by \<open>0x10000\<close> when \<open>((avg - 1) & 0x1FFFF) \<ge> 0x7FFF\<close>.
\<close>

definition avg_spec :: "nat \<Rightarrow> nat \<Rightarrow> nat" where
  "avg_spec srcSize nbChunks =
     (let avg = (srcSize + nbChunks - 1) div nbChunks
      in if (avg - 1) mod 0x20000 \<ge> 0x7FFF then avg + 0x10000 else avg)"

section \<open>Jobs and the worker\<close>

text \<open>
  \<^verbatim>\<open>ZSTDMT_jobDescription\<close>.  Four members share their name with a member of the
  orchestrator context and carry the prefix \<open>job_\<close> here.  The pointers to the pools and to
  the mutex and condition variable are not fields of the model: the pools are passed to the
  worker.
\<close>

record ZSTDMT_jobDescription =
  src :: buffer_t
  srcStart :: ptr
  job_prefixSize :: size_t
  srcSize :: size_t
  job_consumed :: size_t
  dstBuff :: buffer_t
  cSize :: result
  dstFlushed :: size_t
  firstChunk :: unsigned
  lastChunk :: unsigned
  jobCompleted :: unsigned
  frameChecksumNeeded :: unsigned
  job_params :: ZSTD_CCtx_params
  job_cdict :: ptr
  fullFrameSize :: U64

text \<open>A job slot after \<^verbatim>\<open>calloc\<close> or \<^verbatim>\<open>memset(.., 0, ..)\<close>.\<close>

definition zero_job :: ZSTDMT_jobDescription where
  "zero_job =
     \<lparr>src = g_nullBuffer, srcStart = NULL, job_prefixSize = 0, srcSize = 0, job_consumed = 0,
      dstBuff = g_nullBuffer, cSize = Inr 0, dstFlushed = 0, firstChunk = 0, lastChunk = 0,
      jobCompleted = 0, frameChecksumNeeded = 0, job_params = zero_params, job_cdict = NULL,
      fullFrameSize = 0\<rparr>"

text \<open>
  The inner compressor is an external collaborator.  The worker's calls to it are values of
  \<open>cctx_call\<close>, with the arguments of the C call in the C order (for
  \<^verbatim>\<open>ZSTD_CCtxParam_setParameter\<close> only the value stored for \<^verbatim>\<open>ZSTD_p_forceMaxWindow\<close>).  A
  \<open>compressor\<close> tells what a call returns, given the calls made before it.
\<close>

datatype ZSTD_dictMode_e = ZSTD_dm_auto | ZSTD_dm_rawContent

datatype cctx_call =
    compressBegin ptr ptr size_t ZSTD_dictMode_e ptr ZSTD_CCtx_params U64
  | setForceMaxWindow unsigned
  | compressContinue ptr ptr size_t ptr size_t
  | compressEnd ptr ptr size_t ptr size_t
  | invalidateRepCodes ptr

type_synonym compressor = "cctx_call list \<Rightarrow> cctx_call \<Rightarrow> result"

text \<open>\<^verbatim>\<open>job->cSize += cSize\<close>, which the worker executes while \<^verbatim>\<open>job->cSize\<close> is a count.\<close>

definition add_cSize :: "result \<Rightarrow> size_t \<Rightarrow> result" where
  "add_cSize r n = (case r of Inl e \<Rightarrow> Inl e | Inr c \<Rightarrow> Inr (c + n))"

text \<open>
  What the worker hands back: the job, the two pools, the compressor calls and the
  allocator calls, each in program order.
\<close>

type_synonym worker_result =
  "ZSTDMT_jobDescription \<times> ZSTDMT_bufferPool \<times> ZSTDMT_CCtxPool
   \<times> cctx_call list \<times> mem_event list"

text \<open>The label \<^verbatim>\<open>_endJob\<close>: release the context and the source buffer, then report.\<close>

definition endJob ::
  "ZSTDMT_jobDescription \<Rightarrow> ptr \<Rightarrow> ZSTDMT_bufferPool \<Rightarrow> ZSTDMT_CCtxPool
   \<Rightarrow> cctx_call list \<Rightarrow> mem_event list \<Rightarrow> worker_result" where
  "endJob job c bp cp calls events =
     (let (cp', ev1) = ZSTDMT_releaseCCtx cp c;
          (bp', ev2) = ZSTDMT_releaseBuffer bp (src job)
      in (job\<lparr>src := g_nullBuffer, srcStart := NULL,
               job_consumed := srcSize job, jobCompleted := 1\<rparr>,
          bp', cp', calls, events @ ev1 @ ev2))"

text \<open>
  The loop over the full blocks, \<^verbatim>\<open>for (blockNb = 1; blockNb < nbBlocks; blockNb++)\<close>, with the
  block size \<open>B\<close> (\<^verbatim>\<open>ZSTD_BLOCKSIZE_MAX\<close>, declared outside this file).  The state is the
  job, the read pointer \<^verbatim>\<open>ip\<close>, the write pointer \<^verbatim>\<open>op\<close> and the calls so far; the flag is
  \<open>False\<close> when a block failed and control went to \<^verbatim>\<open>_endJob\<close>.  The progress value
  \<^verbatim>\<open>job->consumed = ZSTD_BLOCKSIZE_MAX * blockNb\<close> is a product of two \<^verbatim>\<open>int\<close>s: it is taken in 32
  bits and widened with its sign (C leaves the overflow of this product undefined; the
  model wraps).
\<close>

function compress_blocks ::
  "compressor \<Rightarrow> size_t \<Rightarrow> ptr \<Rightarrow> ptr \<Rightarrow> int \<Rightarrow> int
   \<Rightarrow> ZSTDMT_jobDescription \<times> ptr \<times> ptr \<times> cctx_call list
   \<Rightarrow> (ZSTDMT_jobDescription \<times> ptr \<times> ptr \<times> cctx_call list) \<times> bool" where
  "compress_blocks cmp B c oend nbBlocks blockNb (job, ip, op, calls) =
     (if blockNb < nbBlocks then
        let call = compressContinue c op (oend - op) ip B in
        case cmp calls call of
          Inl e \<Rightarrow> ((job\<lparr>cSize := Inl e\<rparr>, ip, op, calls @ [call]), False)
        | Inr n \<Rightarrow>
            compress_blocks cmp B c oend nbBlocks (blockNb + 1)
              (job\<lparr>cSize := add_cSize (cSize job) n, job_consumed := scast ((ucast B :: 32 word) * of_int blockNb)\<rparr>,
               ip + B, op + n, calls @ [call])
      else ((job, ip, op, calls), True))"
  by pat_completeness auto
termination
  by (relation "measure (\<lambda>(cmp, B, c, oend, nbBlocks, blockNb, st). nat (nbBlocks - blockNb))")
    auto

declare compress_blocks.simps [simp del]

text \<open>The size of the last block, from \<^verbatim>\<open>job->srcSize\<close>.\<close>

definition lastBlockSize :: "size_t \<Rightarrow> size_t \<Rightarrow> size_t" where
  "lastBlockSize B n =
     (let lastBlockSize1 = n AND (B - 1)
      in if lastBlockSize1 = 0 \<and> n \<ge> B then B else lastBlockSize1)"

text \<open>
  The compression part of the worker, after the context is initialised: all full blocks but
  the last through \<^verbatim>\<open>ZSTD_compressContinue\<close>, then the last block through
  \<^verbatim>\<open>ZSTD_compressEnd\<close> or \<^verbatim>\<open>ZSTD_compressContinue\<close>.  \<^verbatim>\<open>nbBlocks\<close> is an \<^verbatim>\<open>int\<close>: the low 32
  bits of the quotient, read as a signed number.
\<close>

definition compress_payload ::
  "compressor \<Rightarrow> size_t \<Rightarrow> ptr \<Rightarrow> ptr \<Rightarrow> buffer_t
   \<Rightarrow> ZSTDMT_jobDescription \<Rightarrow> cctx_call list
   \<Rightarrow> ZSTDMT_jobDescription \<times> cctx_call list" where
  "compress_payload cmp B c srcp dstB job calls =
     (let nbBlocks = sint (ucast ((srcSize job + (B - 1)) div B) :: 32 word);
          ostart = start dstB;
          oend = ostart + bsize dstB;
          ((job1, ip, op, calls1), ok) =
             compress_blocks cmp B c oend nbBlocks 1 (job, srcp, ostart, calls)
      in if \<not> ok then (job1, calls1)
         else if nbBlocks > 0 \<or> lastChunk job1 \<noteq> 0 then
           let n = lastBlockSize B (srcSize job1);
               call = (if lastChunk job1 \<noteq> 0
                       then compressEnd c op (oend - op) ip n
                       else compressContinue c op (oend - op) ip n)
           in case cmp calls1 call of
                Inl e \<Rightarrow> (job1\<lparr>cSize := Inl e\<rparr>, calls1 @ [call])
              | Inr k \<Rightarrow>
                  (job1\<lparr>cSize := add_cSize (cSize job1) k, job_consumed := srcSize job1\<rparr>,
                   calls1 @ [call])
         else (job1, calls1))"

text \<open>
  The initialisation of the context: with a dictionary handle, or with the prefix as raw
  content after \<^verbatim>\<open>forceMaxWindow\<close> is set to \<^verbatim>\<open>!job->firstChunk\<close> in a copy of the job's
  parameters.  The flag is \<open>False\<close> when a call failed.
\<close>

definition init_cctx ::
  "compressor \<Rightarrow> ptr \<Rightarrow> ZSTDMT_jobDescription
   \<Rightarrow> ZSTDMT_jobDescription \<times> cctx_call list \<times> bool" where
  "init_cctx cmp c job =
     (if job_cdict job \<noteq> NULL then
        let call = compressBegin c NULL 0 ZSTD_dm_auto (job_cdict job) (job_params job)
                     (fullFrameSize job)
        in case cmp [] call of
             Inl e \<Rightarrow> (job\<lparr>cSize := Inl e\<rparr>, [call], False)
           | Inr _ \<Rightarrow> (job, [call], True)
      else
        let pledgedSrcSize = (if firstChunk job \<noteq> 0 then fullFrameSize job else srcSize job);
            force = (if firstChunk job = 0 then 1 else 0);
            call1 = setForceMaxWindow force
        in case cmp [] call1 of
             Inl e \<Rightarrow> (job\<lparr>cSize := Inl e\<rparr>, [call1], False)
           | Inr _ \<Rightarrow>
               let jobParams = (job_params job)\<lparr>forceWindow := force\<rparr>;
                   call2 = compressBegin c (srcStart job) (job_prefixSize job)
                             ZSTD_dm_rawContent NULL jobParams pledgedSrcSize
               in case cmp [call1] call2 of
                    Inl e \<Rightarrow> (job\<lparr>cSize := Inl e\<rparr>, [call1, call2], False)
                  | Inr _ \<Rightarrow> (job, [call1, call2], True))"

text \<open>
  For a job that is not the first: one \<^verbatim>\<open>ZSTD_compressContinue\<close> of 0 bytes, whose output
  (the frame header) the next call overwrites, then \<^verbatim>\<open>ZSTD_invalidateRepCodes\<close>.
\<close>

definition flush_header ::
  "compressor \<Rightarrow> ptr \<Rightarrow> ptr \<Rightarrow> buffer_t \<Rightarrow> ZSTDMT_jobDescription \<Rightarrow> cctx_call list
   \<Rightarrow> ZSTDMT_jobDescription \<times> cctx_call list \<times> bool" where
  "flush_header cmp c srcp dstB job calls =
     (if firstChunk job = 0 then
        let call = compressContinue c (start dstB) (bsize dstB) srcp 0
        in case cmp calls call of
             Inl e \<Rightarrow> (job\<lparr>cSize := Inl e\<rparr>, calls @ [call], False)
           | Inr _ \<Rightarrow> (job, calls @ [call, invalidateRepCodes c], True)
      else (job, calls, True))"

text \<open>
  \<^verbatim>\<open>ZSTDMT_compressChunk(jobDescription)\<close>.  \<open>created\<close> is the context that
  \<^verbatim>\<open>ZSTD_createCCtx_advanced\<close> returns when the pool is empty, and \<open>fresh\<close> the memory that
  \<^verbatim>\<open>ZSTD_malloc\<close> returns when the buffer pool has to allocate.
\<close>

definition ZSTDMT_compressChunk ::
  "compressor \<Rightarrow> size_t \<Rightarrow> ptr \<Rightarrow> ptr
   \<Rightarrow> ZSTDMT_jobDescription \<Rightarrow> ZSTDMT_bufferPool \<Rightarrow> ZSTDMT_CCtxPool \<Rightarrow> worker_result" where
  "ZSTDMT_compressChunk cmp B created fresh job bp cp =
     (let (c, cp1) = ZSTDMT_getCCtx created cp;
          srcp = srcStart job + job_prefixSize job
      in if c = NULL then endJob (job\<lparr>cSize := Inl memory_allocation\<rparr>) c bp cp1 [] []
         else
           let (dstB, bp1, ev) =
                 (if start (dstBuff job) = NULL then ZSTDMT_getBuffer fresh bp
                  else (dstBuff job, bp, []))
           in if start dstB = NULL
              then endJob (job\<lparr>cSize := Inl memory_allocation\<rparr>) c bp1 cp1 [] ev
              else
                let job1 = job\<lparr>dstBuff := dstB\<rparr>;
                    (job2, calls2, ok2) = init_cctx cmp c job1
                in if \<not> ok2 then endJob job2 c bp1 cp1 calls2 ev
                   else
                     let (job3, calls3, ok3) = flush_header cmp c srcp dstB job2 calls2
                     in if \<not> ok3 then endJob job3 c bp1 cp1 calls3 ev
                        else
                          let (job4, calls4) = compress_payload cmp B c srcp dstB job3 calls3
                          in endJob job4 c bp1 cp1 calls4 ev)"

definition worker_job :: "worker_result \<Rightarrow> ZSTDMT_jobDescription" where
  "worker_job r = fst r"

definition worker_calls :: "worker_result \<Rightarrow> cctx_call list" where
  "worker_calls r = fst (snd (snd (snd r)))"

text \<open>The payload size of a call, when the call is \<^verbatim>\<open>ZSTD_compressEnd\<close>.\<close>

fun end_size :: "cctx_call \<Rightarrow> size_t option" where
  "end_size (compressEnd c op cap ip n) = Some n"
| "end_size _ = None"

text \<open>
  A last chunk of exactly one block of \<open>2 ^ 17\<close> bytes that is also the first chunk, with its
  destination buffer already set, and a context pool that holds one context.
\<close>

definition job_one_block :: ZSTDMT_jobDescription where
  "job_one_block =
     zero_job\<lparr>srcStart := 0x1000, srcSize := 131072,
              dstBuff := \<lparr>start = 0x100000, bsize = 0x40000\<rparr>,
              firstChunk := 1, lastChunk := 1\<rparr>"

definition cctxPool_one :: ZSTDMT_CCtxPool where
  "cctxPool_one = \<lparr>totalCCtx = 1, availCCtx = 1, cctx = (\<lambda>_. 0x500)\<rparr>"

section \<open>Orchestrator\<close>

record inBuff_t =
  buffer :: buffer_t
  filled :: size_t

text \<open>
  \<^verbatim>\<open>ZSTD_outBuffer\<close> and \<^verbatim>\<open>ZSTD_inBuffer\<close>: the members \<^verbatim>\<open>size\<close> and \<^verbatim>\<open>pos\<close> carry a prefix
  that tells the two records apart.
\<close>

record ZSTD_outBuffer =
  dst :: ptr
  out_size :: size_t
  out_pos :: size_t

record ZSTD_inBuffer =
  in_src :: ptr
  in_size :: size_t
  in_pos :: size_t

datatype ZSTD_EndDirective = ZSTD_e_continue | ZSTD_e_flush | ZSTD_e_end

text \<open>
  \<^verbatim>\<open>struct ZSTDMT_CCtx_s\<close>.  The job table and the two pools, which the C context points
  to, are held by value.  \<^verbatim>\<open>xxhState\<close> is the sequence of bytes fed to the hash since its
  reset.  The last field is not a member of the C structure: it is the byte memory that
  all buffers point into.
\<close>

record ZSTDMT_CCtx =
  jobs :: "unsigned \<Rightarrow> ZSTDMT_jobDescription"
  bufPool :: ZSTDMT_bufferPool
  cctxPool :: ZSTDMT_CCtxPool
  params :: ZSTD_CCtx_params
  targetSectionSize :: size_t
  inBuffSize :: size_t
  prefixSize :: size_t
  targetPrefixSize :: size_t
  inBuff :: inBuff_t
  jobReady :: int
  xxhState :: "byte list"
  singleBlockingThread :: unsigned
  jobIDMask :: unsigned
  doneJobID :: unsigned
  nextJobID :: unsigned
  frameEnded :: unsigned
  allJobsCompleted :: unsigned
  frameContentSize :: U64
  consumed :: U64
  produced :: U64
  cdictLocal :: ptr
  cdict :: ptr
  mem :: memory

text \<open>
  The collaborators of the orchestrator during one call: constants and functions declared
  outside this file, and what the allocator and the thread pool answer.
  \<^item> \<open>ZSTDMT_JOBSIZE_MIN\<close>, \<open>ZSTD_CONTENTSIZE_UNKNOWN\<close>: constants of the headers;
  \<^item> \<open>ZSTD_compressBound\<close>, \<open>XXH64_digest\<close> (on the bytes fed to the hash): pure functions;
  \<^item> \<open>ZSTD_initCStream_internal\<close>, \<open>ZSTD_resetCStream\<close>, \<open>ZSTD_createCDict_advanced\<close>,
    \<open>ZSTD_compressStream_generic\<close>, \<open>ZSTD_flushStream\<close>, \<open>ZSTD_endStream\<close>: the
    single-threaded compressor, by what each call returns and writes;
  \<^item> \<open>malloc_staging\<close>, \<open>malloc_next\<close>: what \<^verbatim>\<open>ZSTD_malloc\<close> returns when the buffer pool has
    to allocate the staging buffer, and the next staging buffer at job creation;
  \<^item> \<open>POOL_tryAdd\<close>: whether the thread pool accepts the job;
  \<^item> \<open>one_shot\<close>: the outcome of \<^verbatim>\<open>ZSTDMT_compress_advanced_internal\<close>, which runs a whole
    compression with its workers: the return value and the parts of the context that the
    call writes (job table, job mask, the two pools) and the memory.
\<close>

record externals =
  ZSTDMT_JOBSIZE_MIN :: unsigned
  ZSTD_CONTENTSIZE_UNKNOWN :: U64
  ZSTD_compressBound :: "size_t \<Rightarrow> size_t"
  XXH64_digest :: "byte list \<Rightarrow> U64"
  ZSTD_initCStream_internal ::
    "ptr \<Rightarrow> ptr \<Rightarrow> size_t \<Rightarrow> ptr \<Rightarrow> ZSTD_CCtx_params \<Rightarrow> U64 \<Rightarrow> result"
  ZSTD_resetCStream :: "ptr \<Rightarrow> U64 \<Rightarrow> result"
  ZSTD_createCDict_advanced :: "ptr \<Rightarrow> size_t \<Rightarrow> ZSTD_dictMode_e \<Rightarrow> ptr"
  ZSTD_compressStream_generic ::
    "ptr \<Rightarrow> ZSTD_outBuffer \<Rightarrow> ZSTD_inBuffer \<Rightarrow> ZSTD_EndDirective \<Rightarrow> memory
     \<Rightarrow> result \<times> ZSTD_outBuffer \<times> ZSTD_inBuffer \<times> memory"
  ZSTD_flushStream :: "ptr \<Rightarrow> ZSTD_outBuffer \<Rightarrow> memory \<Rightarrow> result \<times> ZSTD_outBuffer \<times> memory"
  ZSTD_endStream :: "ptr \<Rightarrow> ZSTD_outBuffer \<Rightarrow> memory \<Rightarrow> result \<times> ZSTD_outBuffer \<times> memory"
  malloc_staging :: ptr
  malloc_next :: ptr
  POOL_tryAdd :: bool
  one_shot ::
    "ZSTDMT_CCtx \<Rightarrow> ptr \<Rightarrow> size_t \<Rightarrow> ptr \<Rightarrow> size_t
     \<Rightarrow> result \<times> (unsigned \<Rightarrow> ZSTDMT_jobDescription) \<times> unsigned
        \<times> ZSTDMT_bufferPool \<times> ZSTDMT_CCtxPool \<times> memory"

subsection \<open>Draining and releasing\<close>

text \<open>
  \<^verbatim>\<open>ZSTDMT_waitForAllJobsCompleted\<close>.  The inner loop waits on the condition variable until
  the worker has set \<^verbatim>\<open>jobCompleted\<close>; a call is modelled at a moment when its waits are
  over, and the result is \<open>None\<close> when the state given still has a job to wait for.
\<close>

function ZSTDMT_waitForAllJobsCompleted :: "ZSTDMT_CCtx \<Rightarrow> ZSTDMT_CCtx option" where
  "ZSTDMT_waitForAllJobsCompleted zcs =
     (if doneJobID zcs < nextJobID zcs then
        if jobCompleted (jobs zcs (doneJobID zcs AND jobIDMask zcs)) = 0 then None
        else ZSTDMT_waitForAllJobsCompleted (zcs\<lparr>doneJobID := doneJobID zcs + 1\<rparr>)
      else Some zcs)"
  by pat_completeness auto
termination
proof (relation "measure (\<lambda>z. unat (nextJobID z) - unat (doneJobID z))")
  show "wf (measure (\<lambda>z. unat (nextJobID z) - unat (doneJobID z)))" by simp
next
  fix zcs :: ZSTDMT_CCtx
  assume lt: "doneJobID zcs < nextJobID zcs"
  then have a: "unat (doneJobID zcs) < unat (nextJobID zcs)" by (simp add: word_less_nat_alt)
  have "unat (nextJobID zcs) < 2 ^ 32" using unsigned_less [of "nextJobID zcs"] by simp
  then have "unat (doneJobID zcs + 1) = unat (doneJobID zcs) + 1"
    using a by (simp add: unat_word_ariths)
  then show "(zcs\<lparr>doneJobID := doneJobID zcs + 1\<rparr>, zcs)
              \<in> measure (\<lambda>z. unat (nextJobID z) - unat (doneJobID z))"
    using a by simp
qed

declare ZSTDMT_waitForAllJobsCompleted.simps [simp del]

text \<open>
  One round of the loop of \<^verbatim>\<open>ZSTDMT_releaseAllJobResources\<close>: the destination buffer, then the
  source buffer of a job go back to the pool.  Above the pool layer the allocator calls are
  not tracked.
\<close>

definition release_job_buffers ::
  "ZSTDMT_bufferPool \<Rightarrow> ZSTDMT_jobDescription \<Rightarrow> ZSTDMT_bufferPool" where
  "release_job_buffers bp j =
     fst (ZSTDMT_releaseBuffer (fst (ZSTDMT_releaseBuffer bp (dstBuff j))) (src j))"

text \<open>
  \<^verbatim>\<open>ZSTDMT_releaseAllJobResources\<close>: the loop over the slots 0 to \<^verbatim>\<open>jobIDMask\<close>, the
  \<^verbatim>\<open>memset\<close> of the table, and the release of the staging buffer.  The table has
  \<^verbatim>\<open>jobIDMask + 1\<close> slots; the model's indices beyond them stand for no memory and are
  zeroed with the rest.
\<close>

definition ZSTDMT_releaseAllJobResources :: "ZSTDMT_CCtx \<Rightarrow> ZSTDMT_CCtx" where
  "ZSTDMT_releaseAllJobResources mtctx =
     (let bp1 = fold (\<lambda>i bp. release_job_buffers bp (jobs mtctx (of_nat i)))
                  [0..<unat (jobIDMask mtctx) + 1] (bufPool mtctx);
          bp2 = fst (ZSTDMT_releaseBuffer bp1 (buffer (inBuff mtctx)))
      in mtctx\<lparr>jobs := (\<lambda>_. zero_job),
               bufPool := bp2,
               inBuff := (inBuff mtctx)\<lparr>buffer := g_nullBuffer\<rparr>,
               allJobsCompleted := 1\<rparr>)"

subsection \<open>Initialisation\<close>

text \<open>
  \<^verbatim>\<open>ZSTDMT_initCStream_internal\<close>, in the order of the source.  First the job size: the
  automatic size from the window log, then the cap.
\<close>

definition adjust_jobSize :: "ZSTD_CCtx_params \<Rightarrow> ZSTD_CCtx_params" where
  "adjust_jobSize prm =
     (let prm1 = (if jobSize prm = 0
                  then (if windowLog (cParams prm) \<ge> 29
                        then prm\<lparr>jobSize := ZSTDMT_JOBSIZE_MAX\<rparr>
                        else prm\<lparr>jobSize := push_bit (unat (windowLog (cParams prm) + 2)) 1\<rparr>)
                  else prm)
      in if jobSize prm1 > ZSTDMT_JOBSIZE_MAX
         then prm1\<lparr>jobSize := ZSTDMT_JOBSIZE_MAX\<rparr> else prm1)"

text \<open>
  A previous compression that was not finished is drained and its resources released;
  \<open>None\<close> while a job of it is still running.
\<close>

definition drain_previous :: "ZSTDMT_CCtx \<Rightarrow> ZSTDMT_CCtx option" where
  "drain_previous zcs =
     (if allJobsCompleted zcs = 0
      then map_option (\<lambda>z. (ZSTDMT_releaseAllJobResources z)\<lparr>allJobsCompleted := 1\<rparr>)
             (ZSTDMT_waitForAllJobsCompleted zcs)
      else Some zcs)"

text \<open>
  The dictionary: a prefix becomes a local dictionary handle (\<open>local\<close> is what
  \<^verbatim>\<open>ZSTD_createCDict_advanced\<close> returned), otherwise the caller's handle is kept.
\<close>

definition set_dictionary :: "ZSTDMT_CCtx \<Rightarrow> ptr \<Rightarrow> ptr \<Rightarrow> ptr \<Rightarrow> ZSTDMT_CCtx" where
  "set_dictionary zcs dict local cd =
     (if dict \<noteq> NULL then zcs\<lparr>cdictLocal := local, cdict := local\<rparr>
      else zcs\<lparr>cdictLocal := NULL, cdict := cd\<rparr>)"

text \<open>The sizes of the frame and the reset of the counters, from the adjusted parameters.\<close>

definition init_frame :: "externals \<Rightarrow> ZSTDMT_CCtx \<Rightarrow> ZSTD_CCtx_params \<Rightarrow> ZSTDMT_CCtx" where
  "init_frame ext zcs prm =
     (let tps = (if overlapSizeLog prm = 0 then 0
                 else shl 1 (windowLog (cParams prm) - (9 - overlapSizeLog prm)));
          tss0 = ucast (jobSize prm);
          tss1 = (if tss0 < ucast (ZSTDMT_JOBSIZE_MIN ext)
                  then ucast (ZSTDMT_JOBSIZE_MIN ext) else tss0);
          tss = (if tss1 < tps then tps else tss1)
      in zcs\<lparr>targetPrefixSize := tps, targetSectionSize := tss,
              inBuffSize := tps + tss,
              bufPool := ZSTDMT_setBufferSize (bufPool zcs)
                           (max (tps + tss) (ZSTD_compressBound ext tss)),
              inBuff := (inBuff zcs)\<lparr>buffer := g_nullBuffer\<rparr>,
              prefixSize := 0, doneJobID := 0, nextJobID := 0, frameEnded := 0,
              allJobsCompleted := 0, consumed := 0, produced := 0,
              xxhState := (if checksumFlag (fParams prm) \<noteq> 0 then [] else xxhState zcs)\<rparr>)"

text \<open>
  The whole function.  \<open>None\<close> when the call still waits for a job of a previous
  compression.
\<close>

definition ZSTDMT_initCStream_internal ::
  "externals \<Rightarrow> ZSTDMT_CCtx \<Rightarrow> ptr \<Rightarrow> size_t \<Rightarrow> ZSTD_dictMode_e \<Rightarrow> ptr
   \<Rightarrow> ZSTD_CCtx_params \<Rightarrow> U64 \<Rightarrow> (result \<times> ZSTDMT_CCtx) option" where
  "ZSTDMT_initCStream_internal ext zcs dict dictSize dictMode cd prm pledgedSrcSize =
     (let zcs1 = zcs\<lparr>singleBlockingThread :=
                       (if pledgedSrcSize \<le> ucast (ZSTDMT_JOBSIZE_MIN ext) then 1 else 0)\<rparr>;
          prm2 = adjust_jobSize prm
      in if singleBlockingThread zcs1 \<noteq> 0 then
           Some (ZSTD_initCStream_internal ext (cctx (cctxPool zcs1) 0) dict dictSize cd
                   (ZSTDMT_initJobCCtxParams prm2) pledgedSrcSize, zcs1)
         else
           case drain_previous zcs1 of
             None \<Rightarrow> None
           | Some zcs2 \<Rightarrow>
               let zcs3 = zcs2\<lparr>params := prm2, frameContentSize := pledgedSrcSize\<rparr>;
                   local = ZSTD_createCDict_advanced ext dict dictSize dictMode;
                   zcs4 = set_dictionary zcs3 dict local cd
               in if dict \<noteq> NULL \<and> local = NULL then Some (Inl memory_allocation, zcs4)
                  else Some (Inr 0, init_frame ext zcs4 prm2))"

text \<open>\<^verbatim>\<open>ZSTDMT_resetCStream(zcs, pledgedSrcSize)\<close>.\<close>

definition ZSTDMT_resetCStream ::
  "externals \<Rightarrow> ZSTDMT_CCtx \<Rightarrow> U64 \<Rightarrow> (result \<times> ZSTDMT_CCtx) option" where
  "ZSTDMT_resetCStream ext zcs pledgedSrcSize =
     (let pledged = (if pledgedSrcSize = 0 then ZSTD_CONTENTSIZE_UNKNOWN ext
                     else pledgedSrcSize)
      in if nbThreads (params zcs) = 1
         then Some (ZSTD_resetCStream ext (cctx (cctxPool zcs) 0) pledged, zcs)
         else ZSTDMT_initCStream_internal ext zcs NULL 0 ZSTD_dm_auto NULL (params zcs) pledged)"

subsection \<open>Job creation\<close>

text \<open>
  The assignments of \<^verbatim>\<open>ZSTDMT_createCompressionJob\<close> to the slot \<^verbatim>\<open>jobs[jobID]\<close>, for a
  payload of \<open>n\<close> bytes.
\<close>

definition prepare_job :: "ZSTDMT_CCtx \<Rightarrow> size_t \<Rightarrow> unsigned \<Rightarrow> ZSTDMT_jobDescription" where
  "prepare_job zcs n endFrame =
     (jobs zcs (nextJobID zcs AND jobIDMask zcs))
       \<lparr>src := buffer (inBuff zcs),
        srcStart := start (buffer (inBuff zcs)),
        srcSize := n,
        job_consumed := 0,
        cSize := Inr 0,
        job_prefixSize := prefixSize zcs,
        job_params := (if nextJobID zcs \<noteq> 0
                       then (params zcs)\<lparr>fParams := (fParams (params zcs))\<lparr>checksumFlag := 0\<rparr>\<rparr>
                       else params zcs),
        job_cdict := (if nextJobID zcs = 0 then cdict zcs else NULL),
        fullFrameSize := frameContentSize zcs,
        dstBuff := g_nullBuffer,
        firstChunk := (if nextJobID zcs = 0 then 1 else 0),
        lastChunk := endFrame,
        jobCompleted := 0,
        frameChecksumNeeded :=
          (if endFrame \<noteq> 0 \<and> nextJobID zcs > 0 \<and> checksumFlag (fParams (params zcs)) \<noteq> 0
           then 1 else 0),
        dstFlushed := 0\<rparr>"

text \<open>
  The branch \<^verbatim>\<open>if (!zcs->jobReady)\<close>: fill the slot, feed the payload to the hash when the
  checksum is on, then either take a new staging buffer and move the overlap into it, or
  close the frame.  The flag is \<open>False\<close> on the path where the new staging buffer could
  not be allocated, just before \<^verbatim>\<open>ZSTDMT_waitForAllJobsCompleted\<close>.
\<close>

definition stage_job :: "externals \<Rightarrow> ZSTDMT_CCtx \<Rightarrow> size_t \<Rightarrow> unsigned \<Rightarrow> ZSTDMT_CCtx \<times> bool" where
  "stage_job ext zcs n endFrame =
     (let jobID = nextJobID zcs AND jobIDMask zcs;
          job = prepare_job zcs n endFrame;
          zcs1 = zcs\<lparr>jobs := (jobs zcs)(jobID := job),
                     xxhState :=
                       (if checksumFlag (fParams (params zcs)) \<noteq> 0
                        then xxhState zcs
                               @ read_bytes (mem zcs)
                                   (start (buffer (inBuff zcs)) + prefixSize zcs) n
                        else xxhState zcs)\<rparr>
      in if endFrame = 0 then
           let newPrefixSize = min (n + prefixSize zcs1) (targetPrefixSize zcs1);
               (b, bp, ev) = ZSTDMT_getBuffer (malloc_next ext) (bufPool zcs1);
               zcs2 = zcs1\<lparr>bufPool := bp, inBuff := (inBuff zcs1)\<lparr>buffer := b\<rparr>\<rparr>
           in if start b = NULL then
                (zcs2\<lparr>jobs := (jobs zcs2)(jobID := (jobs zcs2 jobID)\<lparr>jobCompleted := 1\<rparr>),
                      nextJobID := nextJobID zcs2 + 1\<rparr>, False)
              else
                let filled' = filled (inBuff zcs2) - (n + prefixSize zcs2 - newPrefixSize)
                in (zcs2\<lparr>inBuff := (inBuff zcs2)\<lparr>filled := filled'\<rparr>,
                         mem := copy_bytes (mem zcs2) (start b)
                                  (srcStart job + prefixSize zcs2 + n - newPrefixSize) filled',
                         prefixSize := newPrefixSize\<rparr>, True)
         else
           (zcs1\<lparr>inBuff := \<lparr>buffer = g_nullBuffer, filled = 0\<rparr>,
                 prefixSize := 0,
                 frameEnded := 1,
                 params := (if nextJobID zcs1 = 0
                            then (params zcs1)\<lparr>fParams := (fParams (params zcs1))\<lparr>checksumFlag := 0\<rparr>\<rparr>
                            else params zcs1)\<rparr>, True))"

text \<open>
  \<^verbatim>\<open>ZSTDMT_createCompressionJob(zcs, srcSize, endFrame)\<close>.  \<open>None\<close> when the call still
  waits for a job on its allocation-failure path.
\<close>

definition ZSTDMT_createCompressionJob ::
  "externals \<Rightarrow> ZSTDMT_CCtx \<Rightarrow> size_t \<Rightarrow> unsigned \<Rightarrow> (result \<times> ZSTDMT_CCtx) option" where
  "ZSTDMT_createCompressionJob ext zcs n endFrame =
     (if nextJobID zcs > doneJobID zcs + jobIDMask zcs then Some (Inr 0, zcs)
      else
        let (zcs1, ok) = (if jobReady zcs = 0 then stage_job ext zcs n endFrame
                          else (zcs, True))
        in if \<not> ok then
             map_option (\<lambda>z. (Inl memory_allocation, ZSTDMT_releaseAllJobResources z))
               (ZSTDMT_waitForAllJobsCompleted zcs1)
           else if POOL_tryAdd ext
           then Some (Inr 0, zcs1\<lparr>nextJobID := nextJobID zcs1 + 1, jobReady := 0\<rparr>)
           else Some (Inr 0, zcs1\<lparr>jobReady := 1\<rparr>))"

subsection \<open>Flushing\<close>

text \<open>
  \<^verbatim>\<open>ZSTDMT_flushProduced\<close> works on \<^verbatim>\<open>job\<close>, a copy of the slot \<^verbatim>\<open>jobs[wJobID]\<close> taken under
  the mutex, and writes some members back to the slot.  After the error test the copy's
  \<^verbatim>\<open>cSize\<close> is a count; the steps below carry it as \<open>c\<close>, and the copy's \<^verbatim>\<open>dstFlushed\<close> as
  \<open>flushed\<close>.

  First step, "add frame checksum if necessary": for a completed job with
  \<^verbatim>\<open>frameChecksumNeeded\<close>, the low 32 bits of the digest are written behind the \<open>c\<close> bytes of
  the job's destination buffer, 4 is added to \<^verbatim>\<open>cSize\<close> in the copy and in the slot, and the
  flag is cleared in the slot.
\<close>

definition checksum_due :: "ZSTDMT_jobDescription \<Rightarrow> bool" where
  "checksum_due job = (jobCompleted job \<noteq> 0 \<and> frameChecksumNeeded job \<noteq> 0)"

definition add_frame_checksum ::
  "externals \<Rightarrow> ZSTDMT_CCtx \<Rightarrow> unsigned \<Rightarrow> ZSTDMT_jobDescription \<Rightarrow> size_t
   \<Rightarrow> ZSTDMT_CCtx \<times> size_t" where
  "add_frame_checksum ext zcs wJobID job c =
     (if checksum_due job then
        let checksum = (ucast (XXH64_digest ext (xxhState zcs)) :: 32 word)
        in (zcs\<lparr>mem := MEM_writeLE32 (mem zcs) (start (dstBuff job) + c) checksum,
                jobs := (jobs zcs)(wJobID :=
                   (jobs zcs wJobID)\<lparr>cSize := add_cSize (cSize (jobs zcs wJobID)) 4,
                                    frameChecksumNeeded := 0\<rparr>)\<rparr>,
            c + 4)
      else (zcs, c))"

text \<open>
  Second step, under \<^verbatim>\<open>if (job.dstBuff.start != NULL)\<close>: copy what fits into the output, then
  either retire the job (completed and fully flushed: release its buffer, count it, advance
  \<^verbatim>\<open>doneJobID\<close>) or remember in the slot how much was flushed.  The result is the context,
  the copy's \<^verbatim>\<open>dstFlushed\<close> and the output.
\<close>

definition flush_job ::
  "ZSTDMT_CCtx \<Rightarrow> unsigned \<Rightarrow> ZSTDMT_jobDescription \<Rightarrow> size_t \<Rightarrow> ZSTD_outBuffer
   \<Rightarrow> ZSTDMT_CCtx \<times> size_t \<times> ZSTD_outBuffer" where
  "flush_job zcs wJobID job c output =
     (if start (dstBuff job) \<noteq> NULL then
        let toWrite = min (c - dstFlushed job) (out_size output - out_pos output);
            zcs1 = zcs\<lparr>mem := copy_bytes (mem zcs) (dst output + out_pos output)
                                  (start (dstBuff job) + dstFlushed job) toWrite\<rparr>;
            output1 = output\<lparr>out_pos := out_pos output + toWrite\<rparr>;
            flushed = dstFlushed job + toWrite
        in if jobCompleted job \<noteq> 0 \<and> flushed = c
           then (zcs1\<lparr>bufPool := fst (ZSTDMT_releaseBuffer (bufPool zcs1) (dstBuff job)),
                      jobs := (jobs zcs1)(wJobID :=
                         (jobs zcs1 wJobID)\<lparr>dstBuff := g_nullBuffer, jobCompleted := 0\<rparr>),
                      consumed := consumed zcs1 + srcSize job,
                      produced := produced zcs1 + c,
                      doneJobID := doneJobID zcs1 + 1\<rparr>, flushed, output1)
           else (zcs1\<lparr>jobs := (jobs zcs1)(wJobID :=
                         (jobs zcs1 wJobID)\<lparr>dstFlushed := flushed\<rparr>)\<rparr>, flushed, output1)
      else (zcs, dstFlushed job, output))"

text \<open>
  Last step, the return value: the bytes left in the job's buffer, else 1 while the job is
  not completely compressed, while more jobs wait to be flushed, while a prepared job is
  not posted or while the staging buffer holds input, else 0 with \<^verbatim>\<open>allJobsCompleted\<close> set to
  \<^verbatim>\<open>frameEnded\<close>.
\<close>

definition flush_return ::
  "ZSTDMT_CCtx \<Rightarrow> ZSTDMT_jobDescription \<Rightarrow> size_t \<Rightarrow> size_t \<Rightarrow> size_t \<times> ZSTDMT_CCtx" where
  "flush_return zcs job c flushed =
     (if c > flushed then (c - flushed, zcs)
      else if srcSize job > job_consumed job then (1, zcs)
      else if doneJobID zcs < nextJobID zcs then (1, zcs)
      else if jobReady zcs \<noteq> 0 then (1, zcs)
      else if filled (inBuff zcs) > 0 then (1, zcs)
      else (0, zcs\<lparr>allJobsCompleted := frameEnded zcs\<rparr>))"

text \<open>
  The first loop of the function waits, when \<^verbatim>\<open>blockToFlush\<close> is set and a job is in flight,
  until the job has bytes that were not flushed or is completed.
\<close>

definition flush_must_wait :: "ZSTDMT_CCtx \<Rightarrow> unsigned \<Rightarrow> bool" where
  "flush_must_wait zcs blockToFlush =
     (let job = jobs zcs (doneJobID zcs AND jobIDMask zcs)
      in blockToFlush \<noteq> 0 \<and> doneJobID zcs < nextJobID zcs
         \<and> cSize job = Inr (dstFlushed job) \<and> jobCompleted job \<noteq> 1)"

text \<open>
  \<^verbatim>\<open>ZSTDMT_flushProduced(zcs, output, blockToFlush)\<close>.  \<open>None\<close> when the call still waits:
  in its first loop, or on its error path for the other jobs.
\<close>

definition ZSTDMT_flushProduced ::
  "externals \<Rightarrow> ZSTDMT_CCtx \<Rightarrow> ZSTD_outBuffer \<Rightarrow> unsigned
   \<Rightarrow> (result \<times> ZSTDMT_CCtx \<times> ZSTD_outBuffer) option" where
  "ZSTDMT_flushProduced ext zcs output blockToFlush =
     (let wJobID = doneJobID zcs AND jobIDMask zcs;
          job = jobs zcs wJobID
      in if flush_must_wait zcs blockToFlush then None
         else
           case cSize job of
             Inl e \<Rightarrow>
               map_option (\<lambda>z. (Inl e, ZSTDMT_releaseAllJobResources z, output))
                 (ZSTDMT_waitForAllJobsCompleted zcs)
           | Inr c0 \<Rightarrow>
               let (zcs1, c) = add_frame_checksum ext zcs wJobID job c0;
                   (zcs2, flushed, output1) = flush_job zcs1 wJobID job c output;
                   (r, zcs3) = flush_return zcs2 job c flushed
               in Some (Inr r, zcs3, output1))"

text \<open>
  The return code of the flush in the words of the specification, from the bytes that
  remain in the current job's destination buffer and the context after the copy: these
  bytes when there are any, else 1 when more jobs are queued, a job is ready or the staging
  buffer is not empty, else 0; with it the value of \<^verbatim>\<open>allJobsCompleted\<close> afterwards, set to
  \<^verbatim>\<open>frameEnded\<close> on the path that returns 0 only.
\<close>

definition flush_code_spec :: "ZSTDMT_CCtx \<Rightarrow> size_t \<Rightarrow> size_t \<times> unsigned" where
  "flush_code_spec z remaining =
     (if remaining > 0 then (remaining, allJobsCompleted z)
      else if doneJobID z < nextJobID z \<or> jobReady z \<noteq> 0 \<or> filled (inBuff z) > 0
      then (1, allJobsCompleted z)
      else (0, frameEnded z))"

subsection \<open>Streaming entry points\<close>

text \<open>
  The part of \<^verbatim>\<open>ZSTDMT_compressStream_generic\<close> under the comment "fill input buffer".  The
  result is the context, the input, the end directive, \<^verbatim>\<open>forwardInputProgress\<close>, and
  whether the function goes on (\<open>False\<close>: it returns \<^verbatim>\<open>ERROR(memory_allocation)\<close>).
\<close>

definition fill_input ::
  "externals \<Rightarrow> ZSTDMT_CCtx \<Rightarrow> ZSTD_inBuffer \<Rightarrow> ZSTD_EndDirective
   \<Rightarrow> ZSTDMT_CCtx \<times> ZSTD_inBuffer \<times> ZSTD_EndDirective \<times> unsigned \<times> bool" where
  "fill_input ext mtctx input endOp =
     (if jobReady mtctx = 0 \<and> in_size input > in_pos input then
        let (m1, failed) =
              (if start (buffer (inBuff mtctx)) = NULL then
                 let (b, bp, ev) = ZSTDMT_getBuffer (malloc_staging ext) (bufPool mtctx);
                     m = mtctx\<lparr>bufPool := bp, inBuff := \<lparr>buffer = b, filled = 0\<rparr>\<rparr>
                 in (m, start b = NULL \<and> doneJobID m = nextJobID m)
               else (mtctx, False))
        in if failed then (m1, input, endOp, 0, False)
           else
             let toLoad = min (in_size input - in_pos input)
                              (inBuffSize m1 - filled (inBuff m1));
                 present = start (buffer (inBuff m1)) \<noteq> NULL;
                 m2 = (if present
                       then m1\<lparr>mem := copy_bytes (mem m1)
                                         (start (buffer (inBuff m1)) + filled (inBuff m1))
                                         (in_src input + in_pos input) toLoad,
                                inBuff := (inBuff m1)\<lparr>filled := filled (inBuff m1) + toLoad\<rparr>\<rparr>
                       else m1);
                 input1 = (if present then input\<lparr>in_pos := in_pos input + toLoad\<rparr> else input);
                 progress = (if present \<and> toLoad > 0 then 1 else 0);
                 endOp1 = (if in_pos input1 < in_size input1 \<and> endOp = ZSTD_e_end
                           then ZSTD_e_flush else endOp)
             in (m2, input1, endOp1, progress, True)
      else (mtctx, input, endOp, 0, True))"

text \<open>
  \<^verbatim>\<open>ZSTDMT_compressStream_generic(mtctx, output, input, endOp)\<close>.  \<open>None\<close> when the call still
  waits for a worker.
\<close>

definition ZSTDMT_compressStream_generic ::
  "externals \<Rightarrow> ZSTDMT_CCtx \<Rightarrow> ZSTD_outBuffer \<Rightarrow> ZSTD_inBuffer \<Rightarrow> ZSTD_EndDirective
   \<Rightarrow> (result \<times> ZSTDMT_CCtx \<times> ZSTD_outBuffer \<times> ZSTD_inBuffer) option" where
  "ZSTDMT_compressStream_generic ext mtctx output input endOp =
     (let newJobThreshold = prefixSize mtctx + targetSectionSize mtctx in
      if singleBlockingThread mtctx \<noteq> 0 then
        let (r, output1, input1, m) =
              ZSTD_compressStream_generic ext (cctx (cctxPool mtctx) 0) output input endOp
                (mem mtctx)
        in Some (r, mtctx\<lparr>mem := m\<rparr>, output1, input1)
      else if frameEnded mtctx \<noteq> 0 \<and> endOp = ZSTD_e_continue then
        Some (Inl stage_wrong, mtctx, output, input)
      else if nextJobID mtctx = 0 \<and> filled (inBuff mtctx) = 0 \<and> endOp = ZSTD_e_end
              \<and> out_size output - out_pos output
                   \<ge> ZSTD_compressBound ext (in_size input - in_pos input) then
        let (r, js, mask, bp, cp, m) =
              one_shot ext mtctx (dst output + out_pos output) (out_size output - out_pos output)
                (in_src input + in_pos input) (in_size input - in_pos input);
            mtctx1 = mtctx\<lparr>jobs := js, jobIDMask := mask, bufPool := bp, cctxPool := cp,
                           mem := m\<rparr>
        in case r of
             Inl e \<Rightarrow> Some (Inl e, mtctx1, output, input)
           | Inr n \<Rightarrow>
               Some (Inr 0,
                     mtctx1\<lparr>bufPool := fst (ZSTDMT_releaseBuffer (bufPool mtctx1)
                                               (buffer (inBuff mtctx1))),
                            allJobsCompleted := 1, frameEnded := 1\<rparr>,
                     output\<lparr>out_pos := out_pos output + n\<rparr>,
                     input\<lparr>in_pos := in_size input\<rparr>)
      else
        let (m1, input1, endOp1, forwardInputProgress, go) = fill_input ext mtctx input endOp
        in if \<not> go then Some (Inl memory_allocation, m1, output, input1)
           else
             case (if jobReady m1 \<noteq> 0
                      \<or> filled (inBuff m1) \<ge> newJobThreshold
                      \<or> (endOp1 \<noteq> ZSTD_e_continue \<and> filled (inBuff m1) > 0)
                      \<or> (endOp1 = ZSTD_e_end \<and> frameEnded m1 = 0)
                   then ZSTDMT_createCompressionJob ext m1
                          (min (filled (inBuff m1) - prefixSize m1) (targetSectionSize m1))
                          (if endOp1 = ZSTD_e_end then 1 else 0)
                   else Some (Inr 0, m1)) of
               None \<Rightarrow> None
             | Some (Inl e, m2) \<Rightarrow> Some (Inl e, m2, output, input1)
             | Some (Inr _, m2) \<Rightarrow>
                 (case ZSTDMT_flushProduced ext m2 output
                         (if forwardInputProgress = 0 then 1 else 0) of
                    None \<Rightarrow> None
                  | Some (remainingToFlush, m3, output1) \<Rightarrow>
                      if in_pos input1 < in_size input1
                      then Some (case remainingToFlush of
                                   Inl e \<Rightarrow> Inl e
                                 | Inr k \<Rightarrow> Inr (max k 1), m3, output1, input1)
                      else Some (remainingToFlush, m3, output1, input1)))"

text \<open>
  \<^verbatim>\<open>ZSTDMT_compressStream\<close>: the generic call with \<^verbatim>\<open>ZSTD_e_continue\<close>, then the recommended
  size of the next input.
\<close>

definition ZSTDMT_compressStream ::
  "externals \<Rightarrow> ZSTDMT_CCtx \<Rightarrow> ZSTD_outBuffer \<Rightarrow> ZSTD_inBuffer
   \<Rightarrow> (result \<times> ZSTDMT_CCtx \<times> ZSTD_outBuffer \<times> ZSTD_inBuffer) option" where
  "ZSTDMT_compressStream ext zcs output input =
     (case ZSTDMT_compressStream_generic ext zcs output input ZSTD_e_continue of
        None \<Rightarrow> None
      | Some (Inl e, z, output1, input1) \<Rightarrow> Some (Inl e, z, output1, input1)
      | Some (Inr _, z, output1, input1) \<Rightarrow>
          Some (Inr (inBuffSize z - filled (inBuff z)), z, output1, input1))"

text \<open>\<^verbatim>\<open>ZSTDMT_flushStream_internal(mtctx, output, endFrame)\<close>.\<close>

definition ZSTDMT_flushStream_internal ::
  "externals \<Rightarrow> ZSTDMT_CCtx \<Rightarrow> ZSTD_outBuffer \<Rightarrow> unsigned
   \<Rightarrow> (result \<times> ZSTDMT_CCtx \<times> ZSTD_outBuffer) option" where
  "ZSTDMT_flushStream_internal ext mtctx output endFrame =
     (let n = filled (inBuff mtctx) - prefixSize mtctx in
      case (if jobReady mtctx \<noteq> 0 \<or> n > 0 \<or> (endFrame \<noteq> 0 \<and> frameEnded mtctx = 0)
            then ZSTDMT_createCompressionJob ext mtctx n endFrame
            else Some (Inr 0, mtctx)) of
        None \<Rightarrow> None
      | Some (Inl e, m1) \<Rightarrow> Some (Inl e, m1, output)
      | Some (Inr _, m1) \<Rightarrow> ZSTDMT_flushProduced ext m1 output 1)"

definition ZSTDMT_flushStream ::
  "externals \<Rightarrow> ZSTDMT_CCtx \<Rightarrow> ZSTD_outBuffer
   \<Rightarrow> (result \<times> ZSTDMT_CCtx \<times> ZSTD_outBuffer) option" where
  "ZSTDMT_flushStream ext mtctx output =
     (if singleBlockingThread mtctx \<noteq> 0 then
        let (r, output1, m) = ZSTD_flushStream ext (cctx (cctxPool mtctx) 0) output (mem mtctx)
        in Some (r, mtctx\<lparr>mem := m\<rparr>, output1)
      else ZSTDMT_flushStream_internal ext mtctx output 0)"

definition ZSTDMT_endStream ::
  "externals \<Rightarrow> ZSTDMT_CCtx \<Rightarrow> ZSTD_outBuffer
   \<Rightarrow> (result \<times> ZSTDMT_CCtx \<times> ZSTD_outBuffer) option" where
  "ZSTDMT_endStream ext mtctx output =
     (if singleBlockingThread mtctx \<noteq> 0 then
        let (r, output1, m) = ZSTD_endStream ext (cctx (cctxPool mtctx) 0) output (mem mtctx)
        in Some (r, mtctx\<lparr>mem := m\<rparr>, output1)
      else ZSTDMT_flushStream_internal ext mtctx output 1)"

section \<open>Example collaborators and states\<close>

text \<open>
  Collaborators for the examples: a job size minimum of 1 MiB, the all-ones "unknown" content
  size, a compressor bound of \<open>n + n / 256 + 64\<close>, a hash that only counts its input, a
  single-threaded compressor that always succeeds without moving anything, an allocator
  that succeeds, a thread pool that accepts, and a one-shot path that writes nothing.
\<close>

definition ext_example :: externals where
  "ext_example =
     \<lparr>ZSTDMT_JOBSIZE_MIN = 1048576,
      ZSTD_CONTENTSIZE_UNKNOWN = 0xFFFFFFFFFFFFFFFF,
      ZSTD_compressBound = (\<lambda>n. n + drop_bit 8 n + 64),
      XXH64_digest = (\<lambda>bs. 0x0102030405060708 + of_nat (length bs)),
      ZSTD_initCStream_internal = (\<lambda>c d n cd p s. Inr 0),
      ZSTD_resetCStream = (\<lambda>c s. Inr 0),
      ZSTD_createCDict_advanced = (\<lambda>d n m. 0x700),
      ZSTD_compressStream_generic = (\<lambda>c out inp e m. (Inr 0, out, inp, m)),
      ZSTD_flushStream = (\<lambda>c out m. (Inr 0, out, m)),
      ZSTD_endStream = (\<lambda>c out m. (Inr 0, out, m)),
      malloc_staging = 0x2000000,
      malloc_next = 0x3000000,
      POOL_tryAdd = True,
      one_shot = (\<lambda>z d c s n. (Inr 0, jobs z, jobIDMask z, bufPool z, cctxPool z, mem z))\<rparr>"

text \<open>Parameters for two threads, a window log of 20 and the frame checksum switched on.\<close>

definition params_example :: ZSTD_CCtx_params where
  "params_example =
     (fst (ZSTDMT_CCtxParam_setNbThreads zero_params 2))
       \<lparr>cParams := \<lparr>windowLog = 20\<rparr>,
        fParams := \<lparr>contentSizeFlag = 0, checksumFlag = 1, noDictIDFlag = 0\<rparr>\<rparr>"

text \<open>
  A context as \<^verbatim>\<open>ZSTDMT_createCCtx_advanced\<close> leaves it for two threads (a zeroed
  structure, \<^verbatim>\<open>allJobsCompleted = 1\<close>, a job table of 8 slots, a buffer pool for two threads
  and a context pool that holds its first context), with the example parameters.
\<close>

definition mtctx_created :: ZSTDMT_CCtx where
  "mtctx_created =
     \<lparr>jobs = (\<lambda>_. zero_job),
      bufPool = ZSTDMT_createBufferPool 2,
      cctxPool = \<lparr>totalCCtx = 2, availCCtx = 1, cctx = (\<lambda>_. NULL)(0 := 0x500)\<rparr>,
      params = params_example,
      targetSectionSize = 0, inBuffSize = 0, prefixSize = 0, targetPrefixSize = 0,
      inBuff = \<lparr>buffer = g_nullBuffer, filled = 0\<rparr>,
      jobReady = 0, xxhState = [], singleBlockingThread = 0,
      jobIDMask = 7, doneJobID = 0, nextJobID = 0, frameEnded = 0, allJobsCompleted = 1,
      frameContentSize = 0, consumed = 0, produced = 0, cdictLocal = NULL, cdict = NULL,
      mem = (\<lambda>_. 0)\<rparr>"

text \<open>The example context after \<^verbatim>\<open>ZSTDMT_resetCStream\<close> with an unknown size: a frame is open.\<close>

definition mtctx_open :: ZSTDMT_CCtx where
  "mtctx_open =
     (case ZSTDMT_resetCStream ext_example mtctx_created 0 of
        Some (r, z) \<Rightarrow> z
      | None \<Rightarrow> mtctx_created)"



definition out_example :: ZSTD_outBuffer where
  "out_example = \<lparr>dst = 0x9000, out_size = 1000, out_pos = 0\<rparr>"

text \<open>
  A frame that ends with an empty job.  \<open>mtctx_ended\<close>: \<^verbatim>\<open>ZSTDMT_endStream\<close> on the open
  context has created job 0 with no payload and \<^verbatim>\<open>endFrame\<close> set, and the worker has completed
  it with 10 compressed bytes in a buffer of its own.  \<open>mtctx_flushed\<close>: the context after
  the \<^verbatim>\<open>ZSTDMT_endStream\<close> that flushes these bytes.  \<open>mtctx_reset\<close>: the context after
  \<^verbatim>\<open>ZSTDMT_resetCStream\<close> has opened the next frame.
\<close>

definition mtctx_ended :: ZSTDMT_CCtx where
  "mtctx_ended =
     (case ZSTDMT_createCompressionJob ext_example mtctx_open 0 1 of
        Some (r, z) \<Rightarrow>
          z\<lparr>jobs := (jobs z)(0 := (jobs z 0)\<lparr>dstBuff := \<lparr>start = 0x100000, bsize = 4096\<rparr>,
                                               cSize := Inr 10, jobCompleted := 1\<rparr>)\<rparr>
      | None \<Rightarrow> mtctx_open)"

definition mtctx_flushed :: ZSTDMT_CCtx where
  "mtctx_flushed =
     (case ZSTDMT_endStream ext_example mtctx_ended out_example of
        Some (r, z, out) \<Rightarrow> z
      | None \<Rightarrow> mtctx_ended)"

definition mtctx_reset :: ZSTDMT_CCtx where
  "mtctx_reset =
     (case ZSTDMT_resetCStream ext_example mtctx_flushed 0 of
        Some (r, z) \<Rightarrow> z
      | None \<Rightarrow> mtctx_flushed)"

text \<open>
  A frame in which 4294967295 jobs have been created.  The caller has given no room for
  output since job 4294967288 (\<open>0xFFFFFFF8\<close>), so this job and the six after it are
  completed and wait in their slots, each with 50 compressed bytes in a buffer, and 500
  bytes of input are staged.  \<open>mtctx_wrapped\<close> is the context after the next
  \<^verbatim>\<open>ZSTDMT_createCompressionJob\<close>.
\<close>

definition job_unflushed :: "unsigned \<Rightarrow> ZSTDMT_jobDescription" where
  "job_unflushed w =
     zero_job\<lparr>dstBuff := \<lparr>start = 0x200000 + 0x10000 * ucast w, bsize = 4096\<rparr>,
              cSize := Inr 50, srcSize := 400, job_consumed := 400, jobCompleted := 1\<rparr>"

definition mtctx_wrapping :: ZSTDMT_CCtx where
  "mtctx_wrapping =
     mtctx_open\<lparr>doneJobID := 0xFFFFFFF8, nextJobID := 0xFFFFFFFF,
                inBuff := \<lparr>buffer = \<lparr>start = 0x2000000, bsize = 4325376\<rparr>, filled = 500\<rparr>,
                jobs := (\<lambda>w. if w < 7 then job_unflushed w else zero_job)\<rparr>"

definition mtctx_wrapped :: ZSTDMT_CCtx where
  "mtctx_wrapped =
     (case ZSTDMT_createCompressionJob ext_example mtctx_wrapping 500 0 of
        Some (r, z) \<Rightarrow> z
      | None \<Rightarrow> mtctx_wrapping)"

text \<open>
  The same frame a little earlier, with the output taken as it came: 4294967293 jobs are
  created, job 4294967292 (\<open>0xFFFFFFFC\<close>) is the only one in flight, and 500 bytes of input
  are staged.
\<close>

definition mtctx_guard_wraps :: ZSTDMT_CCtx where
  "mtctx_guard_wraps =
     mtctx_open\<lparr>doneJobID := 0xFFFFFFFC, nextJobID := 0xFFFFFFFD,
                inBuff := \<lparr>buffer = \<lparr>start = 0x2000000, bsize = 4325376\<rparr>, filled = 500\<rparr>,
                jobs := (\<lambda>_. zero_job)(4 := job_unflushed 4)\<rparr>"

section \<open>The job ring\<close>

text \<open>
  The job identifiers between \<^verbatim>\<open>doneJobID\<close> and \<^verbatim>\<open>nextJobID\<close> are in flight: created and not yet
  completely flushed.  \<open>in_flight z w\<close>: the slot \<open>w\<close> of the table belongs to one of them.
\<close>

definition in_flight :: "ZSTDMT_CCtx \<Rightarrow> unsigned \<Rightarrow> bool" where
  "in_flight z w = (\<exists>i. doneJobID z \<le> i \<and> i < nextJobID z \<and> w = i AND jobIDMask z)"

text \<open>
  The state of the ring that the orchestrator relies on: the two counters are in order and
  at most \<^verbatim>\<open>jobIDMask + 1\<close> apart, \<^verbatim>\<open>nextJobID\<close> is at most \<open>n\<close>, and a slot that belongs to no job
  in flight holds no destination buffer.
\<close>

definition ring_inv :: "nat \<Rightarrow> ZSTDMT_CCtx \<Rightarrow> bool" where
  "ring_inv n z =
     (doneJobID z \<le> nextJobID z
      \<and> unat (nextJobID z) - unat (doneJobID z) \<le> unat (jobIDMask z) + 1
      \<and> unat (nextJobID z) \<le> n
      \<and> (\<forall>w. \<not> in_flight z w \<longrightarrow> start (dstBuff (jobs z w)) = NULL))"

text \<open>
  The test of \<^verbatim>\<open>ZSTDMT_flushProduced\<close> under which it retires the current job, on the copy of
  the slot, its size \<open>c\<close> after the checksum step and the output: a buffer is present, the
  job is completed, and this call's copy flushes what was left.
\<close>

definition retires :: "ZSTDMT_jobDescription \<Rightarrow> size_t \<Rightarrow> ZSTD_outBuffer \<Rightarrow> bool" where
  "retires job c outp =
     (start (dstBuff job) \<noteq> NULL \<and> jobCompleted job \<noteq> 0
      \<and> dstFlushed job + min (c - dstFlushed job) (out_size outp - out_pos outp) = c)"

text \<open>
  The states of the orchestrator during a frame, with a bound \<open>n\<close> on \<^verbatim>\<open>nextJobID\<close>.  A state
  with no job in flight and no destination buffer in the table is where a frame starts
  (after creation, after \<^verbatim>\<open>ZSTDMT_initCStream_internal\<close>, after the one-shot path).  From
  there \<^verbatim>\<open>ZSTDMT_createCompressionJob\<close> and \<^verbatim>\<open>ZSTDMT_flushProduced\<close> run in any order, a worker
  writes the slot of a job in flight, and every other step of the file leaves the table,
  the mask and the two counters as they are.
\<close>

inductive reach :: "nat \<Rightarrow> ZSTDMT_CCtx \<Rightarrow> bool" where
  reach_idle:
    "doneJobID z = nextJobID z \<Longrightarrow> (\<forall>w. start (dstBuff (jobs z w)) = NULL)
     \<Longrightarrow> reach (unat (nextJobID z)) z"
| reach_create:
    "reach n z \<Longrightarrow> ZSTDMT_createCompressionJob ext z sz endFrame = Some (r, z')
     \<Longrightarrow> reach (Suc n) z'"
| reach_flush:
    "reach n z \<Longrightarrow> ZSTDMT_flushProduced ext z outp blockToFlush = Some (r, z', outp')
     \<Longrightarrow> reach n z'"
| reach_worker:
    "reach n z \<Longrightarrow> doneJobID z \<le> i \<Longrightarrow> i < nextJobID z
     \<Longrightarrow> reach n (z\<lparr>jobs := (jobs z)(i AND jobIDMask z := job)\<rparr>)"
| reach_other:
    "reach n z \<Longrightarrow> jobs z' = jobs z \<Longrightarrow> jobIDMask z' = jobIDMask z
     \<Longrightarrow> doneJobID z' = doneJobID z \<Longrightarrow> nextJobID z' = nextJobID z
     \<Longrightarrow> reach n z'"
section \<open>Properties\<close>

subsection \<open>Reading words as natural numbers\<close>

lemma unat_u32_lt: "unat (x :: 32 word) < 4294967296"
  using unsigned_less [of x] by simp

lemma unat_ucast_32_64: "unat (ucast (x :: 32 word) :: 64 word) = unat x"
proof -
  have "unat x < 2 ^ 64" using unat_u32_lt [of x] by simp
  then show ?thesis by (simp add: unsigned_ucast_eq take_bit_nat_eq_self)
qed

lemma unat_ucast_64_32: "unat (ucast (x :: 64 word) :: 32 word) = unat x mod 2 ^ 32"
  by (simp add: unsigned_ucast_eq take_bit_eq_mod)

lemma unat_2pow_64:
  assumes "n < 64"
  shows "unat ((2::64 word) ^ n) = 2 ^ n"
proof -
  have "(2::64 word) ^ n = of_nat (2 ^ n)" by simp
  moreover have "(2::nat) ^ n < 2 ^ 64"
    using assms power_strict_increasing [of n 64 "2::nat"] by simp
  ultimately show ?thesis by (simp only: unat_of_nat) simp
qed

lemma unat_succ_32:
  assumes "unat (x :: 32 word) + 1 < 2 ^ 32"
  shows "unat (x + 1) = unat x + 1"
  using assms by (simp add: unat_word_ariths)

lemma unat_mult_32: "unat (a * b :: 32 word) = unat a * unat b mod 2 ^ 32"
  by (simp add: unat_word_ariths)

lemma pow_lt_64:
  assumes "1 \<le> t" "2 ^ (w + 4) * t < (2::nat) ^ 64"
  shows "w + 4 < 64"
proof -
  have "(2::nat) ^ (w + 4) \<le> 2 ^ (w + 4) * t" using assms(1) by simp
  then have "(2::nat) ^ (w + 4) < 2 ^ 64" using assms(2) by linarith
  then show ?thesis using power_less_imp_less_exp [of 2 "w + 4" 64] by simp
qed

lemma unat_and_1FFFF: "unat ((x :: size_t) AND 0x1FFFF) = unat x mod 131072"
proof -
  have "(0x1FFFF :: size_t) = mask 17" by (simp add: mask_eq_decr_exp)
  then have "x AND 0x1FFFF = take_bit 17 x" by (simp only: take_bit_eq_mask)
  then have "unat (x AND 0x1FFFF) = take_bit 17 (unat x)"
    by (simp only: unsigned_take_bit_eq)
  then show ?thesis by (simp add: take_bit_eq_mod)
qed

subsection \<open>Unfolding the examples\<close>

lemmas example_defs =
  ext_example_def mtctx_created_def params_example_def zero_params_def zero_job_def
  ZSTDMT_CCtxParam_setNbThreads_def ZSTDMT_NBTHREADS_MAX_def ZSTDMT_OVERLAPLOG_DEFAULT_def
  ZSTDMT_JOBSIZE_MAX_def ZSTDMT_createBufferPool_def ZSTDMT_setBufferSize_def
  g_nullBuffer_def shl_def

lemma mtctx_open_eq:
  "mtctx_open =
     mtctx_created\<lparr>params := params_example\<lparr>jobSize := 4194304\<rparr>,
                   targetSectionSize := 4194304, inBuffSize := 4325376,
                   targetPrefixSize := 131072,
                   bufPool := (ZSTDMT_createBufferPool 2)\<lparr>bufferSize := 4325376\<rparr>,
                   allJobsCompleted := 0, frameContentSize := 0xFFFFFFFFFFFFFFFF\<rparr>"
  by (simp add: mtctx_open_def ZSTDMT_resetCStream_def ZSTDMT_initCStream_internal_def Let_def
        drain_previous_def set_dictionary_def init_frame_def adjust_jobSize_def example_defs)
subsection \<open>One-shot path: the average chunk size\<close>

lemma avgChunkSize_nat:
  "avgChunkSize p =
     (if p \<noteq> 0 \<and> (unat p - 1) mod 131072 < 32767 then p + 0xFFFF else p)"
proof (cases "p = 0")
  case True
  then show ?thesis by (simp add: avgChunkSize_def)
next
  case False
  then have "unat (p - 1) = unat p - 1" by (simp add: unat_minus_one)
  then have "((p - 1) AND 0x1FFFF < 0x7FFF) = ((unat p - 1) mod 131072 < 32767)"
    by (simp add: word_less_nat_alt unat_and_1FFFF)
  then show ?thesis using False by (simp add: avgChunkSize_def)
qed

text \<open>
  C2, as stated, says that the code computes \<open>avg_spec\<close>: the ceiling of
  \<open>srcSize / nbChunks\<close>, raised by \<open>0x10000\<close> exactly when
  \<open>((avg - 1) & 0x1FFFF) \<ge> 0x7FFF\<close>.  The code does the opposite test with another
  increment.  With 100 bytes in one chunk the code raises the size to \<open>100 + 0xFFFF\<close> where
  the claim leaves it at 100; with \<open>0x8000\<close> bytes in one chunk the code leaves the size
  alone where the claim raises it to \<open>0x18000\<close>.
\<close>

theorem avgChunkSize_claim_counterexample:
  "map_option avgChunkSize (proposedChunkSize 100 1) = Some 65635
   \<and> avg_spec 100 1 = 100
   \<and> map_option avgChunkSize (proposedChunkSize 0x8000 1) = Some 0x8000
   \<and> avg_spec 0x8000 1 = 0x18000"
  by (simp add: proposedChunkSize_def avgChunkSize_def avg_spec_def Let_def)

text \<open>
  C2, amended.  For a chunk count of at least 1 and a source size for which
  \<open>srcSize + nbChunks - 1\<close> fits 64 bits, the proposed chunk size is the ceiling of
  \<open>srcSize / nbChunks\<close>, and the average chunk size is the proposed size plus \<open>0xFFFF\<close>
  exactly when \<open>((proposed - 1) & 0x1FFFF) < 0x7FFF\<close>, and the proposed size itself
  otherwise.  The subtraction wraps around in \<^verbatim>\<open>size_t\<close>, so the test is the same as:
  the proposed size is not 0 and \<open>(proposed - 1) mod 0x20000 < 0x7FFF\<close>.
\<close>

theorem avgChunkSize_rule:
  assumes n: "nbChunks \<noteq> 0"
    and fit: "unat sz + (unat nbChunks - 1) < 2 ^ 64"
  shows "(case proposedChunkSize sz nbChunks of
            None \<Rightarrow> False
          | Some p \<Rightarrow>
              unat p = (unat sz + (unat nbChunks - 1)) div unat nbChunks
              \<and> avgChunkSize p =
                  (if (p - 1) AND 0x1FFFF < 0x7FFF then p + 0xFFFF else p)
              \<and> ((p - 1) AND 0x1FFFF < 0x7FFF
                   \<longleftrightarrow> p \<noteq> 0 \<and> (unat p - 1) mod 131072 < 32767))"
proof -
  have n1: "unat (nbChunks - 1) = unat nbChunks - 1"
    using n by (simp add: unat_minus_one)
  have "unat (sz + ucast (nbChunks - 1)) = (unat sz + (unat nbChunks - 1)) mod 2 ^ 64"
    by (simp add: unat_word_ariths unat_ucast_32_64 n1)
  then have s: "unat (sz + ucast (nbChunks - 1)) = unat sz + (unat nbChunks - 1)"
    using fit by simp
  have d: "unat ((sz + ucast (nbChunks - 1)) div ucast nbChunks)
            = (unat sz + (unat nbChunks - 1)) div unat nbChunks"
    by (simp only: unat_div s unat_ucast_32_64)
  have a: "((p - 1) AND 0x1FFFF < 0x7FFF) = (p \<noteq> 0 \<and> (unat p - 1) mod 131072 < 32767)"
    for p :: size_t
    using avgChunkSize_nat [of p] by (auto simp: avgChunkSize_def split: if_splits)
  show ?thesis
    using n d a by (simp add: proposedChunkSize_def avgChunkSize_def)
qed

theorem avgChunkSize_rule_witness:
  "proposedChunkSize 1000001 4 = Some 250001
   \<and> avgChunkSize 250001 = 250001
   \<and> proposedChunkSize 1048577 4 = Some 262145
   \<and> avgChunkSize 262145 = 262145 + 0xFFFF"
proof -
  have a: "(4 :: unsigned) \<noteq> 0" by simp
  have b: "unat (1000001 :: size_t) + (unat (4 :: unsigned) - 1) < 2 ^ 64" by simp
  have c: "unat (1048577 :: size_t) + (unat (4 :: unsigned) - 1) < 2 ^ 64" by simp
  show ?thesis
    using avgChunkSize_rule [OF a b] avgChunkSize_rule [OF a c]
    by (simp add: proposedChunkSize_def)
qed

subsection \<open>Worker: the final call of a last chunk\<close>

lemma compress_blocks_keeps:
  "compress_blocks cmp B c oend nbBlocks blockNb st = (st', ok) \<Longrightarrow>
     lastChunk (fst st') = lastChunk (fst st) \<and> srcSize (fst st') = srcSize (fst st)
     \<and> (\<not> ok \<longrightarrow> ZSTD_isError (cSize (fst st')))"
proof (induction cmp B c oend nbBlocks blockNb st arbitrary: st' ok rule: compress_blocks.induct)
  case (1 cmp B c oend nbBlocks blockNb job ip op calls)
  note run = "1.prems" [unfolded compress_blocks.simps [of cmp B c oend nbBlocks blockNb]]
  show ?case
  proof (cases "blockNb < nbBlocks")
    case False
    then show ?thesis using run by auto
  next
    case True
    show ?thesis
    proof (cases "cmp calls (compressContinue c op (oend - op) ip B)")
      case (Inl e)
      then show ?thesis using True run by (auto simp: ZSTD_isError_def)
    next
      case (Inr n)
      then show ?thesis
        using True run "1.IH" [OF True refl Inr] by (auto simp: Let_def)
    qed
  qed
qed

lemma compress_payload_last:
  assumes run: "compress_payload cmp B c srcp dstB job calls = (job', calls')"
    and lc: "lastChunk job \<noteq> 0"
    and ok: "\<not> ZSTD_isError (cSize job')"
  shows "calls' \<noteq> [] \<and> end_size (last calls') = Some (lastBlockSize B (srcSize job))"
proof -
  obtain job1 ip op calls1 ok1 where
    cb: "compress_blocks cmp B c (start dstB + bsize dstB)
           (sint (ucast ((srcSize job + (B - 1)) div B) :: 32 word)) 1
           (job, srcp, start dstB, calls) = ((job1, ip, op, calls1), ok1)"
    by (metis prod.exhaust)
  have keep: "lastChunk job1 = lastChunk job" "srcSize job1 = srcSize job"
    "\<not> ok1 \<longrightarrow> ZSTD_isError (cSize job1)"
    using compress_blocks_keeps [OF cb] by simp_all
  show ?thesis
  proof (cases ok1)
    case False
    then have "job' = job1" using run cb by (simp add: compress_payload_def Let_def)
    then show ?thesis using keep False ok by simp
  next
    case True
    let ?call = "compressEnd c op (start dstB + bsize dstB - op) ip (lastBlockSize B (srcSize job))"
    show ?thesis
    proof (cases "cmp calls1 ?call")
      case (Inl e)
      then have "cSize job' = Inl e"
        using run cb True keep lc by (auto simp: compress_payload_def Let_def)
      then show ?thesis using ok by (simp add: ZSTD_isError_def)
    next
      case (Inr k)
      then have "calls' = calls1 @ [?call]"
        using run cb True keep lc by (auto simp: compress_payload_def Let_def)
      then show ?thesis by simp
    qed
  qed
qed

lemma endJob_fields:
  "endJob job c bp cp calls events = (job', bp', cp', calls', events') \<Longrightarrow>
     cSize job' = cSize job \<and> calls' = calls"
  by (auto simp: endJob_def Let_def split: prod.splits)

lemma init_cctx_keeps:
  "init_cctx cmp c job = (job', calls, ok) \<Longrightarrow>
     lastChunk job' = lastChunk job \<and> srcSize job' = srcSize job
     \<and> (\<not> ok \<longrightarrow> ZSTD_isError (cSize job'))"
  by (auto simp: init_cctx_def Let_def ZSTD_isError_def split: if_splits sum.splits)

lemma flush_header_keeps:
  "flush_header cmp c srcp dstB job calls = (job', calls', ok) \<Longrightarrow>
     lastChunk job' = lastChunk job \<and> srcSize job' = srcSize job
     \<and> (\<not> ok \<longrightarrow> ZSTD_isError (cSize job'))"
  by (auto simp: flush_header_def Let_def ZSTD_isError_def split: if_splits sum.splits)

lemma compressChunk_last_call:
  assumes run: "ZSTDMT_compressChunk cmp B created fresh job bp cp
                  = (job', bp', cp', calls, events)"
    and lc: "lastChunk job \<noteq> 0"
    and ok: "\<not> ZSTD_isError (cSize job')"
  shows "calls \<noteq> [] \<and> end_size (last calls) = Some (lastBlockSize B (srcSize job))"
proof -
  obtain c cp1 where g: "ZSTDMT_getCCtx created cp = (c, cp1)" by (metis prod.exhaust)
  obtain dstB bp1 ev where d:
    "(if start (dstBuff job) = NULL then ZSTDMT_getBuffer fresh bp else (dstBuff job, bp, []))
       = (dstB, bp1, ev)" by (metis prod.exhaust)
  obtain job2 calls2 ok2 where i: "init_cctx cmp c (job\<lparr>dstBuff := dstB\<rparr>) = (job2, calls2, ok2)"
    by (metis prod.exhaust)
  obtain job3 calls3 ok3 where h:
    "flush_header cmp c (srcStart job + job_prefixSize job) dstB job2 calls2 = (job3, calls3, ok3)"
    by (metis prod.exhaust)
  obtain job4 calls4 where p:
    "compress_payload cmp B c (srcStart job + job_prefixSize job) dstB job3 calls3 = (job4, calls4)"
    by (metis prod.exhaust)
  have k2: "lastChunk job2 = lastChunk job" "srcSize job2 = srcSize job"
    "\<not> ok2 \<longrightarrow> ZSTD_isError (cSize job2)"
    using init_cctx_keeps [OF i] by simp_all
  have k3: "lastChunk job3 = lastChunk job2" "srcSize job3 = srcSize job2"
    "\<not> ok3 \<longrightarrow> ZSTD_isError (cSize job3)"
    using flush_header_keeps [OF h] by simp_all
  have c0: "c \<noteq> NULL"
  proof
    assume "c = NULL"
    then have "cSize job' = Inl memory_allocation"
      using run g by (auto simp: ZSTDMT_compressChunk_def Let_def dest: endJob_fields)
    then show False using ok by (simp add: ZSTD_isError_def)
  qed
  have d0: "start dstB \<noteq> NULL"
  proof
    assume "start dstB = NULL"
    then have "cSize job' = Inl memory_allocation"
      using run g d c0 by (auto simp: ZSTDMT_compressChunk_def Let_def dest: endJob_fields)
    then show False using ok by (simp add: ZSTD_isError_def)
  qed
  have o2: ok2
  proof (rule ccontr)
    assume "\<not> ok2"
    then have "cSize job' = cSize job2"
      using run g d c0 d0 i by (auto simp: ZSTDMT_compressChunk_def Let_def dest: endJob_fields)
    then show False using ok k2 \<open>\<not> ok2\<close> by simp
  qed
  have o3: ok3
  proof (rule ccontr)
    assume "\<not> ok3"
    then have "cSize job' = cSize job3"
      using run g d c0 d0 i o2 h
      by (auto simp: ZSTDMT_compressChunk_def Let_def dest: endJob_fields)
    then show False using ok k3 \<open>\<not> ok3\<close> by simp
  qed
  have "cSize job' = cSize job4 \<and> calls = calls4"
    using run g d c0 d0 i o2 h o3 p
    by (auto simp: ZSTDMT_compressChunk_def Let_def dest: endJob_fields)
  then show ?thesis
    using compress_payload_last [OF p] k2 k3 lc ok by simp
qed

lemma lastBlockSize_multiple:
  assumes k: "k < 64" and d: "2 ^ k dvd unat n"
  shows "lastBlockSize (2 ^ k) n = (if n = 0 then 0 else 2 ^ k)"
proof -
  have m: "n AND (2 ^ k - 1) = 0"
    using d by (simp add: and_mask_dvd_nat mask_eq_decr_exp)
  have u: "unat ((2::size_t) ^ k) = 2 ^ k" using k by (rule unat_2pow_64)
  show ?thesis
  proof (cases "n = 0")
    case True
    then show ?thesis by (simp add: lastBlockSize_def)
  next
    case False
    then have "0 < unat n" by (simp add: unat_gt_0)
    then have "2 ^ k \<le> unat n" using d by (simp add: dvd_imp_le)
    then have "(2::size_t) ^ k \<le> n" by (simp add: word_le_nat_alt u)
    then show ?thesis using False m by (simp add: lastBlockSize_def)
  qed
qed

text \<open>
  C1, as stated, says that a last chunk whose payload is a multiple of the block size ends
  with a \<^verbatim>\<open>ZSTD_compressEnd\<close> call of size 0.  For a last chunk of exactly one block of
  \<open>2 ^ 17\<close> bytes (block size \<open>2 ^ 17\<close>, a compressor that answers 10 bytes to every call)
  the worker's final call is \<^verbatim>\<open>ZSTD_compressEnd\<close> on the whole block of 131072 bytes.
\<close>

theorem last_chunk_zero_block_counterexample:
  "lastChunk job_one_block = 1
   \<and> srcSize job_one_block = 131072
   \<and> cSize (worker_job (ZSTDMT_compressChunk (\<lambda>_ _. Inr 10) 131072 0 0 job_one_block
                (ZSTDMT_createBufferPool 1) cctxPool_one)) = Inr 10
   \<and> last (worker_calls (ZSTDMT_compressChunk (\<lambda>_ _. Inr 10) 131072 0 0 job_one_block
                (ZSTDMT_createBufferPool 1) cctxPool_one))
       = compressEnd 0x500 0x100000 0x40000 0x1000 131072"
  by (simp add: worker_calls_def worker_job_def ZSTDMT_compressChunk_def job_one_block_def
      cctxPool_one_def zero_job_def ZSTDMT_getCCtx_def ZSTDMT_createBufferPool_def
      init_cctx_def flush_header_def compress_payload_def lastBlockSize_def endJob_def
      ZSTDMT_releaseCCtx_def ZSTDMT_releaseBuffer_def g_nullBuffer_def Let_def add_cSize_def
      compress_blocks.simps)

text \<open>
  C1, amended.  For every job with \<^verbatim>\<open>lastChunk\<close> set that the worker finishes without an
  error (no allocation failure, no error of the compressor), the final compressor call is
  \<^verbatim>\<open>ZSTD_compressEnd\<close>, so the chunk carries the last-block marker, and its size is the
  last block size computed from \<^verbatim>\<open>srcSize\<close>.  When the block size is a power of two and
  \<^verbatim>\<open>srcSize\<close> is a multiple of it, that size is 0 for \<^verbatim>\<open>srcSize = 0\<close> and a full block
  otherwise.
\<close>

theorem last_chunk_final_call:
  assumes lc: "lastChunk job \<noteq> 0"
    and ok: "\<not> ZSTD_isError (cSize (worker_job (ZSTDMT_compressChunk cmp (2 ^ k) created fresh
                                                    job bp cp)))"
    and k: "k < 64"
  shows "worker_calls (ZSTDMT_compressChunk cmp (2 ^ k) created fresh job bp cp) \<noteq> []
         \<and> end_size (last (worker_calls (ZSTDMT_compressChunk cmp (2 ^ k) created fresh
                                            job bp cp)))
             = Some (lastBlockSize (2 ^ k) (srcSize job))
         \<and> (2 ^ k dvd unat (srcSize job) \<longrightarrow>
              lastBlockSize (2 ^ k) (srcSize job) = (if srcSize job = 0 then 0 else 2 ^ k))"
proof -
  obtain job' bp' cp' calls events where
    run: "ZSTDMT_compressChunk cmp (2 ^ k) created fresh job bp cp
            = (job', bp', cp', calls, events)"
    by (metis prod.exhaust)
  have "\<not> ZSTD_isError (cSize job')" using ok run by (simp add: worker_job_def)
  from compressChunk_last_call [OF run lc this] lastBlockSize_multiple [OF k]
  show ?thesis by (simp add: run worker_calls_def)
qed

theorem last_chunk_final_call_witness:
  "end_size (last (worker_calls (ZSTDMT_compressChunk (\<lambda>_ _. Inr 10) (2 ^ 17) 0 0
                      (job_one_block\<lparr>srcSize := 0\<rparr>) (ZSTDMT_createBufferPool 1)
                      cctxPool_one)))
     = Some 0
   \<and> end_size (last (worker_calls (ZSTDMT_compressChunk (\<lambda>_ _. Inr 10) (2 ^ 17) 0 0
                      (job_one_block\<lparr>srcSize := 262144\<rparr>)
                      (ZSTDMT_createBufferPool 1) cctxPool_one)))
     = Some (2 ^ 17)"
proof -
  have lc: "lastChunk (job_one_block\<lparr>srcSize := s\<rparr>) \<noteq> 0" for s
    by (simp add: job_one_block_def zero_job_def)
  have k: "(17::nat) < 64" by simp
  have B: "(2::size_t) ^ 17 = 131072" by simp
  have ok0: "\<not> ZSTD_isError (cSize (worker_job (ZSTDMT_compressChunk (\<lambda>_ _. Inr 10) (2 ^ 17)
                0 0 (job_one_block\<lparr>srcSize := 0\<rparr>)
                (ZSTDMT_createBufferPool 1) cctxPool_one)))"
    unfolding B
    by (simp add: worker_job_def ZSTDMT_compressChunk_def job_one_block_def
        cctxPool_one_def zero_job_def ZSTDMT_getCCtx_def ZSTDMT_createBufferPool_def
        init_cctx_def flush_header_def compress_payload_def lastBlockSize_def endJob_def
        ZSTDMT_releaseCCtx_def ZSTDMT_releaseBuffer_def g_nullBuffer_def Let_def
        add_cSize_def ZSTD_isError_def compress_blocks.simps)
  have ok2: "\<not> ZSTD_isError (cSize (worker_job (ZSTDMT_compressChunk (\<lambda>_ _. Inr 10) (2 ^ 17)
                0 0 (job_one_block\<lparr>srcSize := 262144\<rparr>)
                (ZSTDMT_createBufferPool 1) cctxPool_one)))"
    unfolding B
    by (simp add: worker_job_def ZSTDMT_compressChunk_def job_one_block_def
        cctxPool_one_def zero_job_def ZSTDMT_getCCtx_def ZSTDMT_createBufferPool_def
        init_cctx_def flush_header_def compress_payload_def lastBlockSize_def endJob_def
        ZSTDMT_releaseCCtx_def ZSTDMT_releaseBuffer_def g_nullBuffer_def Let_def
        add_cSize_def ZSTD_isError_def compress_blocks.simps)
  have d0: "(2::nat) ^ 17 dvd unat (srcSize (job_one_block\<lparr>srcSize := 0\<rparr>))" by simp
  have d2: "(2::nat) ^ 17 dvd unat (srcSize (job_one_block\<lparr>srcSize := 262144\<rparr>))" by simp
  from last_chunk_final_call [OF lc ok0 k] last_chunk_final_call [OF lc ok2 k] d0 d2
  show ?thesis by simp
qed

subsection \<open>Streaming: the frame checksum\<close>








subsection \<open>Buffer pool: the size band of acquire\<close>

lemma drop_bit_3_div_8: "unat (drop_bit 3 (s :: size_t)) = unat s div 8"
  by (simp add: drop_bit_eq_div unat_div)

text \<open>
  C5.  Let \<open>S\<close> be the pool's target size.  When the pool holds a buffer, acquire pops the
  newest one (size \<open>s\<close>) and hands it out, with no allocator call, exactly when
  \<open>s \<ge> S\<close> and \<open>s >> 3 \<le> S\<close>; otherwise the popped buffer is freed and an allocation of
  \<open>S\<close> bytes is attempted.  An empty pool goes straight to the allocation.  When the
  allocation fails the result is the null buffer, not an error.
\<close>

theorem getBuffer_size_band:
  fixes bufPool :: ZSTDMT_bufferPool and fresh :: ptr
  shows
  "(let S = bufferSize bufPool;
        popped = bTable bufPool (nbBuffers bufPool - 1);
        s = bsize popped;
        (buf, pool', events) = ZSTDMT_getBuffer fresh bufPool
    in (nbBuffers bufPool \<noteq> 0 \<longrightarrow>
          nbBuffers pool' = nbBuffers bufPool - 1
          \<and> bTable pool' (nbBuffers bufPool - 1) = g_nullBuffer
          \<and> ((buf = popped \<and> events = []) \<longleftrightarrow> (s \<ge> S \<and> drop_bit 3 s \<le> S))
          \<and> (\<not> (s \<ge> S \<and> drop_bit 3 s \<le> S) \<longrightarrow>
                events = [Free (start popped), Malloc S fresh]
                \<and> buf = new_buffer fresh S))
     \<and> (nbBuffers bufPool = 0 \<longrightarrow>
          pool' = bufPool \<and> events = [Malloc S fresh] \<and> buf = new_buffer fresh S)
     \<and> new_buffer NULL S = g_nullBuffer
     \<and> (fresh \<noteq> NULL \<longrightarrow> new_buffer fresh S = \<lparr>start = fresh, bsize = S\<rparr>)
     \<and> unat (drop_bit 3 s) = unat s div 8)"
  by (auto simp: ZSTDMT_getBuffer_def Let_def new_buffer_def g_nullBuffer_def
      drop_bit_3_div_8)

definition pool_example :: ZSTDMT_bufferPool where
  "pool_example =
     \<lparr>bufferSize = 100, totalBuffers = 5, nbBuffers = 2,
      bTable = (\<lambda>_. g_nullBuffer)(0 := \<lparr>start = 4096, bsize = 100\<rparr>,
                                   1 := \<lparr>start = 8192, bsize = 900\<rparr>)\<rparr>"

theorem getBuffer_size_band_witness:
  "ZSTDMT_getBuffer 12288 pool_example =
     (\<lparr>start = 12288, bsize = 100\<rparr>,
      pool_example\<lparr>nbBuffers := 1, bTable := (bTable pool_example)(1 := g_nullBuffer)\<rparr>,
      [Free 8192, Malloc 100 12288])
   \<and> fst (ZSTDMT_getBuffer 12288 (fst (snd (ZSTDMT_getBuffer 12288 pool_example))))
       = \<lparr>start = 4096, bsize = 100\<rparr>"
  using getBuffer_size_band [of pool_example 12288]
  by (simp add: ZSTDMT_getBuffer_def pool_example_def Let_def new_buffer_def g_nullBuffer_def)

subsection \<open>One-shot path: the number of chunks\<close>

text \<open>
  C6, as stated, says that the code computes \<open>nbChunks_spec\<close> for every source size,
  window log and thread count of at least 1.  The code narrows
  \<open>srcSize / passSizeMax\<close> to 32 bits before adding 1: with a window log of 10, one thread
  and \<open>2 ^ 46\<close> source bytes the quotient \<open>2 ^ 32\<close> becomes 0, the multiplier becomes 1 and
  the function answers 1 chunk, where the rule of the specification gives \<open>2 ^ 32 + 1\<close>.
\<close>

theorem computeNbChunks_claim_counterexample:
  "ZSTDMT_computeNbChunks (2 ^ 46) 10 1 = Some 1
   \<and> nbChunks_spec (2 ^ 46) 10 1 = 4294967297"
  by (simp add: ZSTDMT_computeNbChunks_def nbChunks_spec_def shl_def Let_def)

text \<open>
  C6, amended.  For a thread count \<open>T \<ge> 1\<close>, when no intermediate value leaves its C
  type, that is \<open>perPass = 2 ^ (W + 4) * T\<close> fits 64 bits, \<open>m * T\<close> fits 32 bits for
  \<open>m = srcSize / perPass + 1\<close>, and (where \<open>m = 1\<close>) \<open>srcSize / target + 1\<close> fits 32
  bits, the function returns the chunk count of the specification's rule.
\<close>

theorem computeNbChunks_formula:
  assumes T: "1 \<le> unat T"
    and pass: "2 ^ (unat W + 4) * unat T < (2::nat) ^ 64"
    and large: "(unat sz div (2 ^ (unat W + 4) * unat T) + 1) * unat T < 2 ^ 32"
    and small: "unat sz div (2 ^ (unat W + 4) * unat T) = 0 \<longrightarrow>
                 unat sz div 2 ^ (unat W + 2) + 1 < 2 ^ 32"
  shows "map_option unat (ZSTDMT_computeNbChunks sz W T)
          = Some (nbChunks_spec (unat sz) (unat W) (unat T))"
proof -
  define tgt where "tgt = shl 1 (W + 2)"
  define P where "P = push_bit 2 tgt * ucast T"
  define q where "q = unat sz div (2 ^ (unat W + 4) * unat T)"
  have w: "unat W + 4 < 64" using pow_lt_64 [OF T pass] .
  have w2: "unat (W + 2) = unat W + 2"
    using w by (simp add: unat_word_ariths)
  have nw: "\<not> 64 \<le> W + 2"
    using w w2 by (simp add: word_le_nat_alt)
  have tgt: "unat tgt = 2 ^ (unat W + 2)"
    using w w2 unat_2pow_64 [of "unat W + 2"] by (simp add: tgt_def shl_def push_bit_eq_mult)
  have mx: "unat (push_bit 2 tgt) = 2 ^ (unat W + 4)"
    using w w2 unat_2pow_64 [of "unat W + 4"]
    by (simp add: tgt_def shl_def push_bit_eq_mult power_add mult.commute)
  have "unat P = (unat (push_bit 2 tgt) * unat (ucast T :: size_t)) mod 2 ^ 64"
    unfolding P_def by (simp add: unat_word_ariths)
  then have ps: "unat P = 2 ^ (unat W + 4) * unat T"
    using pass by (simp only: mx unat_ucast_32_64 mod_less)
  have "0 < unat P" using T unfolding ps by simp
  then have ps0: "P \<noteq> 0" by (simp add: unat_gt_0)
  have q32: "q + 1 < 2 ^ 32"
  proof -
    have "(q + 1) * 1 \<le> (q + 1) * unat T" using T by (rule mult_le_mono2)
    then have "q + 1 \<le> (q + 1) * unat T" by simp
    then show ?thesis using large unfolding q_def by linarith
  qed
  have qd: "unat (sz div P) = q"
    by (simp only: unat_div ps q_def)
  have qu: "unat (ucast (sz div P) :: unsigned) = q"
    using q32 by (simp only: unat_ucast_64_32 qd) simp
  have mult: "unat ((ucast (sz div P) :: unsigned) + 1) = q + 1"
    using q32 unat_succ_32 [of "ucast (sz div P)"] by (simp only: qu)
  have "unat (((ucast (sz div P) :: unsigned) + 1) * T) = ((q + 1) * unat T) mod 2 ^ 32"
    by (simp only: unat_mult_32 mult)
  then have lg: "unat (((ucast (sz div P) :: unsigned) + 1) * T) = (q + 1) * unat T"
    using large unfolding q_def by simp
  have gt: "((ucast (sz div P) :: unsigned) + 1 > 1) = (q + 1 > 1)"
    by (simp only: word_less_nat_alt mult unat_1)
  have code: "ZSTDMT_computeNbChunks sz W T =
      Some (if (ucast (sz div P) :: unsigned) + 1 > 1
            then ((ucast (sz div P) :: unsigned) + 1) * T
            else min ((ucast (sz div tgt) :: unsigned) + 1) T)"
    using nw ps0 unfolding P_def tgt_def
    by (simp add: ZSTDMT_computeNbChunks_def Let_def)
  have spec: "nbChunks_spec (unat sz) (unat W) (unat T) =
      (if q + 1 > 1 then (q + 1) * unat T
       else min (unat T) (unat sz div 2 ^ (unat W + 2) + 1))"
    by (simp add: nbChunks_spec_def Let_def q_def power_add mult.commute mult.left_commute)
  show ?thesis
  proof (cases "q + 1 > 1")
    case True
    then show ?thesis by (simp only: code spec gt lg if_True option.map)
  next
    case False
    then have q0: "q = 0" by simp
    define r where "r = unat sz div 2 ^ (unat W + 2)"
    have r32: "r + 1 < 2 ^ 32" using small q0 unfolding q_def r_def by simp
    have "unat (sz div tgt) = r" by (simp only: unat_div tgt r_def)
    then have "unat (ucast (sz div tgt) :: unsigned) = r"
      using r32 by (simp only: unat_ucast_64_32) simp
    then have sm: "unat ((ucast (sz div tgt) :: unsigned) + 1) = r + 1"
      using r32 unat_succ_32 [of "ucast (sz div tgt)"] by simp
    have "unat (min ((ucast (sz div tgt) :: unsigned) + 1) T) = min (unat T) (r + 1)"
      by (simp add: min_def word_le_nat_alt sm)
    then show ?thesis using False by (simp only: code spec gt if_False option.map r_def)
  qed
qed

theorem computeNbChunks_formula_witness:
  "map_option unat (ZSTDMT_computeNbChunks (2 ^ 20) 10 4) = Some 68
   \<and> map_option unat (ZSTDMT_computeNbChunks (2 ^ 20) 20 4) = Some 1"
proof -
  have "map_option unat (ZSTDMT_computeNbChunks (2 ^ 20) 10 4)
          = Some (nbChunks_spec (unat (2 ^ 20 :: size_t)) (unat (10 :: unsigned))
                    (unat (4 :: unsigned)))"
    by (rule computeNbChunks_formula) simp_all
  moreover have "map_option unat (ZSTDMT_computeNbChunks (2 ^ 20) 20 4)
          = Some (nbChunks_spec (unat (2 ^ 20 :: size_t)) (unat (20 :: unsigned))
                    (unat (4 :: unsigned)))"
    by (rule computeNbChunks_formula) simp_all
  ultimately show ?thesis by (simp add: nbChunks_spec_def)
qed


subsection \<open>Flush: the return code\<close>

text \<open>
  C7.  The claim gives the return code of \<^verbatim>\<open>ZSTDMT_flushProduced\<close>: the bytes that remain in
  the current job's destination buffer when there are any, else 1 when more jobs are
  queued, a job is ready or the staging buffer is not empty, else 0 (\<open>flush_code_spec\<close>).
  The code does not do this for a slot whose job is retired.  When a job is flushed in one
  call, \<^verbatim>\<open>ZSTDMT_flushProduced\<close> releases the buffer of the slot and leaves \<^verbatim>\<open>cSize\<close> and
  \<^verbatim>\<open>dstFlushed\<close> in the table as they were, and \<^verbatim>\<open>ZSTDMT_initCStream_internal\<close> does not clear
  the table after a frame that was completely flushed.  Here a frame ends with a job of 10
  compressed bytes: \<^verbatim>\<open>ZSTDMT_endStream\<close> flushes them and returns 0, \<^verbatim>\<open>ZSTDMT_resetCStream\<close> opens
  the next frame, and in the new frame no job is queued or ready, the staging buffer is
  empty and the current slot holds no buffer, so that no byte remains and the claim has
  the flush return 0.  \<^verbatim>\<open>ZSTDMT_flushStream\<close> returns 10, the difference left in the slot by
  the previous frame, writes nothing, and changes nothing, so that every further call
  returns 10 again.
\<close>

theorem flushStream_stale_count:
  "ZSTDMT_endStream ext_example mtctx_ended out_example
     = Some (Inr 0, mtctx_flushed, out_example\<lparr>out_pos := 10\<rparr>)
   \<and> allJobsCompleted mtctx_flushed = 1
   \<and> ZSTDMT_resetCStream ext_example mtctx_flushed 0 = Some (Inr 0, mtctx_reset)
   \<and> doneJobID mtctx_reset = nextJobID mtctx_reset
   \<and> jobReady mtctx_reset = 0
   \<and> filled (inBuff mtctx_reset) = 0
   \<and> frameEnded mtctx_reset = 0
   \<and> dstBuff (jobs mtctx_reset (doneJobID mtctx_reset AND jobIDMask mtctx_reset)) = g_nullBuffer
   \<and> cSize (jobs mtctx_reset (doneJobID mtctx_reset AND jobIDMask mtctx_reset)) = Inr 10
   \<and> dstFlushed (jobs mtctx_reset (doneJobID mtctx_reset AND jobIDMask mtctx_reset)) = 0
   \<and> flush_code_spec mtctx_reset 0 = (0, 0)
   \<and> ZSTDMT_flushProduced ext_example mtctx_reset out_example 1
       = Some (Inr 10, mtctx_reset, out_example)
   \<and> ZSTDMT_flushStream ext_example mtctx_reset out_example
       = Some (Inr 10, mtctx_reset, out_example)"
  by (simp add: mtctx_reset_def mtctx_flushed_def mtctx_ended_def flush_code_spec_def
      ZSTDMT_createCompressionJob_def stage_job_def prepare_job_def Let_def read_bytes_def
      ZSTDMT_endStream_def ZSTDMT_flushStream_def ZSTDMT_flushStream_internal_def
      ZSTDMT_flushProduced_def flush_must_wait_def add_frame_checksum_def checksum_due_def
      flush_job_def flush_return_def ZSTDMT_releaseBuffer_def
      ZSTDMT_resetCStream_def ZSTDMT_initCStream_internal_def
      drain_previous_def set_dictionary_def init_frame_def adjust_jobSize_def
      copy_bytes_def mtctx_open_eq example_defs out_example_def)

theorem flushStream_stale_count_witness:
  "\<not> doneJobID mtctx_reset < nextJobID mtctx_reset
   \<and> jobReady mtctx_reset = 0
   \<and> \<not> filled (inBuff mtctx_reset) > 0
   \<and> fst (flush_code_spec mtctx_reset 0) = 0
   \<and> ZSTDMT_flushStream ext_example mtctx_reset out_example
       = Some (Inr 10, mtctx_reset, out_example)"
  using flushStream_stale_count by simp
subsection \<open>Streaming: input after the end of the frame\<close>

text \<open>
  C8.  When the frame has ended and the context is not in single-blocking-thread mode, a
  streaming call with the directive \<^verbatim>\<open>ZSTD_e_continue\<close> returns the error \<open>stage_wrong\<close>; the
  context, the memory, the input position and the output position are what they were.
  \<^verbatim>\<open>ZSTDMT_compressStream\<close>, which passes that directive, returns the same error.
\<close>

theorem continue_after_end_is_stage_wrong:
  assumes "frameEnded mtctx \<noteq> 0" and "singleBlockingThread mtctx = 0"
  shows "ZSTDMT_compressStream_generic ext mtctx output input ZSTD_e_continue
           = Some (Inl stage_wrong, mtctx, output, input)
         \<and> ZSTDMT_compressStream ext mtctx output input
           = Some (Inl stage_wrong, mtctx, output, input)"
  using assms by (simp add: ZSTDMT_compressStream_generic_def ZSTDMT_compressStream_def)

theorem continue_after_end_is_stage_wrong_witness:
  "ZSTDMT_compressStream_generic ext_example (mtctx_created\<lparr>frameEnded := 1\<rparr>)
      \<lparr>dst = 0x9000, out_size = 100, out_pos = 0\<rparr>
      \<lparr>in_src = 0x8000, in_size = 10, in_pos = 0\<rparr> ZSTD_e_continue
    = Some (Inl stage_wrong, mtctx_created\<lparr>frameEnded := 1\<rparr>,
            \<lparr>dst = 0x9000, out_size = 100, out_pos = 0\<rparr>,
            \<lparr>in_src = 0x8000, in_size = 10, in_pos = 0\<rparr>)"
proof -
  have a: "frameEnded (mtctx_created\<lparr>frameEnded := 1\<rparr>) \<noteq> 0" by simp
  have b: "singleBlockingThread (mtctx_created\<lparr>frameEnded := 1\<rparr>) = 0"
    by (simp add: mtctx_created_def)
  from continue_after_end_is_stage_wrong [OF a b] show ?thesis by simp
qed

subsection \<open>Thread-count setter\<close>

text \<open>
  C9.  For every parameter record and every requested thread count, the setter stores the
  count clamped into the range from 1 to 200 and returns that value; it also resets
  \<^verbatim>\<open>overlapSizeLog\<close> to the default 6 and \<^verbatim>\<open>jobSize\<close> to 0, whatever they held before, and
  leaves every other field alone.
\<close>

theorem setNbThreads_clamps_and_resets:
  "ZSTDMT_CCtxParam_setNbThreads prm n =
     (prm\<lparr>nbThreads := max 1 (min n 200), overlapSizeLog := 6, jobSize := 0\<rparr>,
      ucast (max 1 (min n 200)))
   \<and> 1 \<le> unat (max 1 (min n 200)) \<and> unat (max 1 (min n 200)) \<le> 200"
  by (simp add: ZSTDMT_CCtxParam_setNbThreads_def ZSTDMT_NBTHREADS_MAX_def
      ZSTDMT_OVERLAPLOG_DEFAULT_def Let_def max_def min_def word_le_nat_alt
      word_less_nat_alt not_le not_less)

subsection \<open>Reset with a pledged size of zero\<close>

text \<open>
  C10.  A reset that pledges 0 bytes is the reset that pledges
  \<^verbatim>\<open>ZSTD_CONTENTSIZE_UNKNOWN\<close>: with one thread that value goes to \<^verbatim>\<open>ZSTD_resetCStream\<close>,
  otherwise to \<^verbatim>\<open>ZSTDMT_initCStream_internal\<close>.  So, the unknown size not being 0, every
  reset is a reset with a pledged size other than 0, and a multi-threaded context that the
  reset has initialised never holds a frame content size of 0.
\<close>

lemma init_frame_frameContentSize [simp]:
  "frameContentSize (init_frame ext z p) = frameContentSize z"
  by (simp add: init_frame_def Let_def)

lemma set_dictionary_frameContentSize [simp]:
  "frameContentSize (set_dictionary z d l c) = frameContentSize z"
  by (simp add: set_dictionary_def)

lemma init_frameContentSize:
  assumes "ZSTDMT_initCStream_internal ext zcs d n m cd prm pl = Some (Inr k, z)"
    and "singleBlockingThread z = 0"
  shows "frameContentSize z = pl"
proof (cases "pl \<le> ucast (ZSTDMT_JOBSIZE_MIN ext)")
  case True
  then have "singleBlockingThread z = 1" using assms(1)
    by (auto simp: ZSTDMT_initCStream_internal_def Let_def)
  then show ?thesis using assms(2) by simp
next
  case False
  then show ?thesis using assms(1)
    by (auto simp: ZSTDMT_initCStream_internal_def Let_def split: option.splits if_splits)
qed

lemma reset_pledge_nonzero:
  assumes u: "ZSTD_CONTENTSIZE_UNKNOWN ext \<noteq> 0" and t: "nbThreads (params zcs) \<noteq> 1"
  shows "(case ZSTDMT_resetCStream ext zcs p of
            Some (Inr k, z) \<Rightarrow> singleBlockingThread z = 0 \<longrightarrow> frameContentSize z \<noteq> 0
          | _ \<Rightarrow> True)"
proof -
  have r: "ZSTDMT_resetCStream ext zcs p
             = ZSTDMT_initCStream_internal ext zcs NULL 0 ZSTD_dm_auto NULL (params zcs)
                 (if p = 0 then ZSTD_CONTENTSIZE_UNKNOWN ext else p)"
    using t by (simp add: ZSTDMT_resetCStream_def)
  show ?thesis
  proof (cases "ZSTDMT_resetCStream ext zcs p")
    case None
    then show ?thesis by simp
  next
    case (Some rz)
    obtain res z where rz: "rz = (res, z)" by (cases rz)
    show ?thesis
    proof (cases res)
      case (Inl e)
      then show ?thesis using Some rz by simp
    next
      case (Inr k)
      have "singleBlockingThread z = 0 \<Longrightarrow>
              frameContentSize z = (if p = 0 then ZSTD_CONTENTSIZE_UNKNOWN ext else p)"
        using init_frameContentSize [of ext zcs NULL 0 ZSTD_dm_auto NULL "params zcs" _ k z]
          Some rz Inr r by simp
      then show ?thesis using Some rz Inr u by auto
    qed
  qed
qed

theorem resetCStream_zero_is_unknown:
  "ZSTDMT_resetCStream ext zcs 0 = ZSTDMT_resetCStream ext zcs (ZSTD_CONTENTSIZE_UNKNOWN ext)
   \<and> (nbThreads (params zcs) = 1 \<longrightarrow>
        ZSTDMT_resetCStream ext zcs 0
          = Some (ZSTD_resetCStream ext (cctx (cctxPool zcs) 0) (ZSTD_CONTENTSIZE_UNKNOWN ext),
                  zcs))
   \<and> (nbThreads (params zcs) \<noteq> 1 \<longrightarrow>
        ZSTDMT_resetCStream ext zcs 0
          = ZSTDMT_initCStream_internal ext zcs NULL 0 ZSTD_dm_auto NULL (params zcs)
              (ZSTD_CONTENTSIZE_UNKNOWN ext))
   \<and> (ZSTD_CONTENTSIZE_UNKNOWN ext \<noteq> 0 \<longrightarrow>
        ZSTDMT_resetCStream ext zcs p
          = ZSTDMT_resetCStream ext zcs (if p = 0 then ZSTD_CONTENTSIZE_UNKNOWN ext else p)
        \<and> (if p = 0 then ZSTD_CONTENTSIZE_UNKNOWN ext else p) \<noteq> 0
        \<and> (nbThreads (params zcs) \<noteq> 1 \<longrightarrow>
             (case ZSTDMT_resetCStream ext zcs p of
                Some (Inr k, z) \<Rightarrow>
                   singleBlockingThread z = 0 \<longrightarrow> frameContentSize z \<noteq> 0
              | _ \<Rightarrow> True)))"
proof (intro conjI impI)
  show "ZSTDMT_resetCStream ext zcs 0
          = ZSTDMT_resetCStream ext zcs (ZSTD_CONTENTSIZE_UNKNOWN ext)"
    by (simp add: ZSTDMT_resetCStream_def)
  show "ZSTDMT_resetCStream ext zcs 0
          = Some (ZSTD_resetCStream ext (cctx (cctxPool zcs) 0) (ZSTD_CONTENTSIZE_UNKNOWN ext),
                  zcs)"
    if "nbThreads (params zcs) = 1"
    using that by (simp add: ZSTDMT_resetCStream_def)
  show "ZSTDMT_resetCStream ext zcs 0
          = ZSTDMT_initCStream_internal ext zcs NULL 0 ZSTD_dm_auto NULL (params zcs)
              (ZSTD_CONTENTSIZE_UNKNOWN ext)"
    if "nbThreads (params zcs) \<noteq> 1"
    using that by (simp add: ZSTDMT_resetCStream_def)
  show "ZSTDMT_resetCStream ext zcs p
          = ZSTDMT_resetCStream ext zcs (if p = 0 then ZSTD_CONTENTSIZE_UNKNOWN ext else p)"
    by (simp add: ZSTDMT_resetCStream_def)
  show "(if p = 0 then ZSTD_CONTENTSIZE_UNKNOWN ext else p) \<noteq> 0"
    if "ZSTD_CONTENTSIZE_UNKNOWN ext \<noteq> 0"
    using that by simp
  show "(case ZSTDMT_resetCStream ext zcs p of
           Some (Inr k, z) \<Rightarrow> singleBlockingThread z = 0 \<longrightarrow> frameContentSize z \<noteq> 0
         | _ \<Rightarrow> True)"
    if "ZSTD_CONTENTSIZE_UNKNOWN ext \<noteq> 0" and "nbThreads (params zcs) \<noteq> 1"
    using that by (rule reset_pledge_nonzero)
qed

theorem resetCStream_zero_is_unknown_witness:
  "(case ZSTDMT_resetCStream ext_example mtctx_created 0 of
      Some (Inr k, z) \<Rightarrow>
        k = 0 \<and> frameContentSize z = 0xFFFFFFFFFFFFFFFF \<and> singleBlockingThread z = 0
    | _ \<Rightarrow> False)"
proof -
  have e: "ZSTDMT_resetCStream ext_example mtctx_created 0xFFFFFFFFFFFFFFFF
             = Some (Inr 0, init_frame ext_example
                  (mtctx_created\<lparr>params := adjust_jobSize params_example,
                                  frameContentSize := 0xFFFFFFFFFFFFFFFF\<rparr>)
                  (adjust_jobSize params_example))"
    by (simp add: ZSTDMT_resetCStream_def ZSTDMT_initCStream_internal_def Let_def
        drain_previous_def set_dictionary_def example_defs)
  have u: "ZSTD_CONTENTSIZE_UNKNOWN ext_example = 0xFFFFFFFFFFFFFFFF"
    by (simp add: ext_example_def)
  from resetCStream_zero_is_unknown [of ext_example mtctx_created 0]
  have "ZSTDMT_resetCStream ext_example mtctx_created 0
          = ZSTDMT_resetCStream ext_example mtctx_created 0xFFFFFFFFFFFFFFFF"
    by (simp only: u)
  then have "ZSTDMT_resetCStream ext_example mtctx_created 0
          = Some (Inr 0, init_frame ext_example
                  (mtctx_created\<lparr>params := adjust_jobSize params_example,
                                  frameContentSize := 0xFFFFFFFFFFFFFFFF\<rparr>)
                  (adjust_jobSize params_example))"
    by (simp only: e)
  then show ?thesis
    by (simp add: init_frame_def Let_def mtctx_created_def)
qed


subsection \<open>The job ring\<close>

text \<open>
  C4.  The claim: in every reachable state of the orchestrator \<^verbatim>\<open>doneJobID \<le> nextJobID\<close> and
  \<^verbatim>\<open>nextJobID - doneJobID \<le> jobIDMask + 1\<close>, and a slot of the ring is never overwritten before
  it is drained.  The two counters are \<^verbatim>\<open>unsigned\<close>, and the code lets them wrap.  In
  \<open>mtctx_wrapping\<close> the claim holds: the jobs \<open>0xFFFFFFF8\<close> to \<open>0xFFFFFFFE\<close> are in flight, 7
  for a ring of 8.  \<^verbatim>\<open>ZSTDMT_createCompressionJob\<close> finds room (\<^verbatim>\<open>doneJobID + jobIDMask\<close> is
  \<open>0xFFFFFFFF\<close>), creates job \<open>0xFFFFFFFF\<close> and increments \<^verbatim>\<open>nextJobID\<close> to 0, below
  \<^verbatim>\<open>doneJobID\<close>.  The ring is now full, the next job goes to the slot of job \<open>0xFFFFFFF8\<close>, which
  still holds 50 bytes that were not flushed, and the guard does not refuse it: the next
  \<^verbatim>\<open>ZSTDMT_createCompressionJob\<close> puts a new job with no buffer and \<^verbatim>\<open>cSize = 0\<close> in this slot.
  The sum in the guard wraps too: in \<open>mtctx_guard_wraps\<close> one job is in flight and
  \<^verbatim>\<open>doneJobID + jobIDMask\<close> is 3, so \<^verbatim>\<open>ZSTDMT_createCompressionJob\<close> takes the ring for full and
  returns 0 with nothing changed, at a state where the \<^verbatim>\<open>assert\<close> of that branch,
  \<^verbatim>\<open>(nextJobID & jobIDMask) == (doneJobID & jobIDMask)\<close>, is false.
\<close>

theorem nextJobID_wraps_below_doneJobID:
  "doneJobID mtctx_wrapping \<le> nextJobID mtctx_wrapping
   \<and> unat (nextJobID mtctx_wrapping) - unat (doneJobID mtctx_wrapping)
       \<le> unat (jobIDMask mtctx_wrapping) + 1
   \<and> ZSTDMT_createCompressionJob ext_example mtctx_wrapping 500 0 = Some (Inr 0, mtctx_wrapped)
   \<and> doneJobID mtctx_wrapped = 0xFFFFFFF8 \<and> nextJobID mtctx_wrapped = 0
   \<and> \<not> doneJobID mtctx_wrapped \<le> nextJobID mtctx_wrapped
   \<and> jobs mtctx_wrapped (doneJobID mtctx_wrapped AND jobIDMask mtctx_wrapped) = job_unflushed 0
   \<and> nextJobID mtctx_wrapped AND jobIDMask mtctx_wrapped
       = doneJobID mtctx_wrapped AND jobIDMask mtctx_wrapped
   \<and> (case ZSTDMT_createCompressionJob ext_example mtctx_wrapped 0 1 of
         Some (r, z) \<Rightarrow>
           r = Inr 0 \<and> nextJobID z = 1 \<and> doneJobID z = 0xFFFFFFF8
           \<and> dstBuff (jobs z (doneJobID z AND jobIDMask z)) = g_nullBuffer
           \<and> cSize (jobs z (doneJobID z AND jobIDMask z)) = Inr 0
       | None \<Rightarrow> False)
   \<and> unat (nextJobID mtctx_guard_wraps) - unat (doneJobID mtctx_guard_wraps) = 1
   \<and> ZSTDMT_createCompressionJob ext_example mtctx_guard_wraps 500 0
       = Some (Inr 0, mtctx_guard_wraps)
   \<and> nextJobID mtctx_guard_wraps AND jobIDMask mtctx_guard_wraps
       \<noteq> doneJobID mtctx_guard_wraps AND jobIDMask mtctx_guard_wraps"
  by (simp add: mtctx_wrapped_def mtctx_wrapping_def mtctx_guard_wraps_def job_unflushed_def
      ZSTDMT_createCompressionJob_def stage_job_def prepare_job_def Let_def read_bytes_def
      ZSTDMT_getBuffer_def new_buffer_def copy_bytes_def mtctx_open_eq example_defs)

text \<open>
  Below the wrap the ring is as the claim has it.  The lemmas that follow show it for the
  states of \<open>reach\<close> whose bound on \<^verbatim>\<open>nextJobID\<close> is less than \<open>2^32\<close>.
\<close>

subsection \<open>Draining\<close>

lemma word_succ_eq:
  assumes "(a :: unsigned) < b" "\<not> a + 1 < b"
  shows "a + 1 = b"
  using assms inc_le [of a b] by simp

lemma wait_result:
  "ZSTDMT_waitForAllJobsCompleted z = Some z' \<Longrightarrow>
   z' = z\<lparr>doneJobID := (if doneJobID z < nextJobID z then nextJobID z else doneJobID z)\<rparr>"
proof (induction z rule: ZSTDMT_waitForAllJobsCompleted.induct)
  case (1 zcs)
  show ?case
  proof (cases "doneJobID zcs < nextJobID zcs")
    case False
    then show ?thesis using "1.prems"
      by (simp add: ZSTDMT_waitForAllJobsCompleted.simps [of zcs])
  next
    case True
    show ?thesis
    proof (cases "jobCompleted (jobs zcs (doneJobID zcs AND jobIDMask zcs)) = 0")
      case True
      then show ?thesis using "1.prems" \<open>doneJobID zcs < nextJobID zcs\<close>
        by (simp add: ZSTDMT_waitForAllJobsCompleted.simps [of zcs])
    next
      case False
      have r: "ZSTDMT_waitForAllJobsCompleted (zcs\<lparr>doneJobID := doneJobID zcs + 1\<rparr>) = Some z'"
        using "1.prems" True False by (simp add: ZSTDMT_waitForAllJobsCompleted.simps [of zcs])
      have "z' = (zcs\<lparr>doneJobID := doneJobID zcs + 1\<rparr>)
                   \<lparr>doneJobID := (if doneJobID zcs + 1 < nextJobID zcs then nextJobID zcs
                                   else doneJobID zcs + 1)\<rparr>"
        using "1.IH" [OF True False r] by simp
      then show ?thesis using True word_succ_eq [of "doneJobID zcs" "nextJobID zcs"]
        by (cases "doneJobID zcs + 1 < nextJobID zcs") simp_all
    qed
  qed
qed

lemma release_fields [simp]:
  "doneJobID (ZSTDMT_releaseAllJobResources z) = doneJobID z"
  "nextJobID (ZSTDMT_releaseAllJobResources z) = nextJobID z"
  "jobIDMask (ZSTDMT_releaseAllJobResources z) = jobIDMask z"
  "jobs (ZSTDMT_releaseAllJobResources z) = (\<lambda>_. zero_job)"
  by (simp_all add: ZSTDMT_releaseAllJobResources_def Let_def)

lemma zero_job_no_buffer [simp]: "start (dstBuff zero_job) = NULL"
  by (simp add: zero_job_def g_nullBuffer_def)

lemma drained_ring:
  assumes "n' < 4294967296" "unat (nextJobID z) \<le> n'"
    "ZSTDMT_waitForAllJobsCompleted z = Some z1" "doneJobID z \<le> nextJobID z"
  shows "ring_inv n' (ZSTDMT_releaseAllJobResources z1)"
proof -
  have "z1 = z\<lparr>doneJobID := nextJobID z\<rparr>"
    using wait_result [OF assms(3)] assms(4) by (cases "doneJobID z < nextJobID z") auto
  then show ?thesis using assms(2) by (simp add: ring_inv_def)
qed


subsection \<open>Job creation\<close>

lemma stage_job_fields:
  assumes "stage_job ext z n e = (z1, ok)"
  shows "doneJobID z1 = doneJobID z" "jobIDMask z1 = jobIDMask z"
    "nextJobID z1 = (if ok then nextJobID z else nextJobID z + 1)"
    "start (dstBuff (jobs z1 (nextJobID z AND jobIDMask z))) = NULL"
    "w \<noteq> nextJobID z AND jobIDMask z \<Longrightarrow> jobs z1 w = jobs z w"
  using assms
  by (auto simp add: stage_job_def prepare_job_def Let_def g_nullBuffer_def
        split: prod.splits if_splits)

lemma in_flight_grows:
  assumes "doneJobID z1 = doneJobID z" "jobIDMask z1 = jobIDMask z"
    "nextJobID z \<le> nextJobID z1" "in_flight z w"
  shows "in_flight z1 w"
  using assms unfolding in_flight_def by (metis order_less_le_trans)

lemma ring_grows:
  assumes inv: "ring_inv n z" and n: "Suc n < 4294967296"
    and g: "\<not> nextJobID z > doneJobID z + jobIDMask z"
    and d: "doneJobID z1 = doneJobID z" and m: "jobIDMask z1 = jobIDMask z"
    and x: "nextJobID z1 = nextJobID z + 1 \<or> nextJobID z1 = nextJobID z"
    and j: "\<And>w. \<not> in_flight z w \<Longrightarrow> start (dstBuff (jobs z1 w)) = NULL"
  shows "ring_inv (Suc n) z1"
proof -
  have le: "unat (nextJobID z) \<le> n" and dn: "unat (doneJobID z) \<le> unat (nextJobID z)"
    and bd: "unat (nextJobID z) - unat (doneJobID z) \<le> unat (jobIDMask z) + 1"
    using inv by (simp_all add: ring_inv_def word_le_nat_alt)
  have suc: "unat (nextJobID z + 1) = unat (nextJobID z) + 1"
    using le n by (simp add: unat_succ_32)
  have "unat (nextJobID z) \<le> unat (doneJobID z + jobIDMask z)"
    using g by (simp add: word_le_nat_alt not_less)
  also have "\<dots> \<le> unat (doneJobID z) + unat (jobIDMask z)"
    by (simp add: unat_word_ariths)
  finally have room: "unat (nextJobID z) \<le> unat (doneJobID z) + unat (jobIDMask z)" .
  have mono: "nextJobID z \<le> nextJobID z1"
    using x suc by (auto simp add: word_le_nat_alt)
  have a: "doneJobID z1 \<le> nextJobID z1"
    using x d dn suc by (auto simp add: word_le_nat_alt)
  have b: "unat (nextJobID z1) - unat (doneJobID z1) \<le> unat (jobIDMask z1) + 1"
    using x d m suc room bd by auto
  have c: "unat (nextJobID z1) \<le> Suc n" using x suc le by auto
  have e: "start (dstBuff (jobs z1 w)) = NULL" if nf: "\<not> in_flight z1 w" for w
  proof -
    have "\<not> in_flight z w" using nf in_flight_grows [OF d m mono] by blast
    then show ?thesis by (rule j)
  qed
  show ?thesis using a b c e by (simp add: ring_inv_def)
qed

lemma ring_same:
  assumes "ring_inv n z" "jobs z' = jobs z" "jobIDMask z' = jobIDMask z"
    "doneJobID z' = doneJobID z" "nextJobID z' = nextJobID z"
  shows "ring_inv n z'"
  using assms by (simp add: ring_inv_def in_flight_def)

lemma ring_mono: "ring_inv n z \<Longrightarrow> n \<le> n' \<Longrightarrow> ring_inv n' z"
  by (simp add: ring_inv_def)

lemma idle_slot: "ring_inv n z \<Longrightarrow> \<not> in_flight z w \<Longrightarrow> start (dstBuff (jobs z w)) = NULL"
  by (simp add: ring_inv_def)

lemma create_ring:
  assumes inv: "ring_inv n z" and n: "Suc n < 4294967296"
    and c: "ZSTDMT_createCompressionJob ext z sz e = Some (r, z')"
  shows "ring_inv (Suc n) z'"
proof (cases "nextJobID z > doneJobID z + jobIDMask z")
  case True
  then have "z' = z" using c by (simp add: ZSTDMT_createCompressionJob_def)
  then show ?thesis using inv ring_mono by simp
next
  case g: False
  show ?thesis
  proof (cases "jobReady z = 0")
    case False
    show ?thesis
    proof (cases "POOL_tryAdd ext")
      case True
      then have z': "z' = z\<lparr>nextJobID := nextJobID z + 1, jobReady := 0\<rparr>"
        using c g False by (simp add: ZSTDMT_createCompressionJob_def)
      show ?thesis
        by (rule ring_grows [OF inv n g]) (simp_all add: z' idle_slot [OF inv])
    next
      case F: False
      then have "z' = z\<lparr>jobReady := 1\<rparr>"
        using c g False by (simp add: ZSTDMT_createCompressionJob_def)
      then show ?thesis using ring_same [OF inv, of z'] ring_mono by auto
    qed
  next
    case True
    obtain z1 ok where st: "stage_job ext z sz e = (z1, ok)" by (cases "stage_job ext z sz e")
    note f = stage_job_fields [OF st]
    have j: "start (dstBuff (jobs z1 w)) = NULL" if "\<not> in_flight z w" for w
      using f(4) f(5) [of w] idle_slot [OF inv that]
      by (cases "w = nextJobID z AND jobIDMask z") simp_all
    show ?thesis
    proof (cases ok)
      case ok: True
      show ?thesis
      proof (cases "POOL_tryAdd ext")
        case True
        then have z': "z' = z1\<lparr>nextJobID := nextJobID z1 + 1, jobReady := 0\<rparr>"
          using c g \<open>jobReady z = 0\<close> st ok by (simp add: ZSTDMT_createCompressionJob_def)
        show ?thesis
          by (rule ring_grows [OF inv n g]) (simp_all add: z' f(1-3) ok j)
      next
        case False
        then have z': "z' = z1\<lparr>jobReady := 1\<rparr>"
          using c g \<open>jobReady z = 0\<close> st ok by (simp add: ZSTDMT_createCompressionJob_def)
        show ?thesis
          by (rule ring_grows [OF inv n g]) (simp_all add: z' f(1-3) ok j)
      qed
    next
      case False
      then obtain zw where w: "ZSTDMT_waitForAllJobsCompleted z1 = Some zw"
        and z': "z' = ZSTDMT_releaseAllJobResources zw"
        using c g \<open>jobReady z = 0\<close> st by (auto simp add: ZSTDMT_createCompressionJob_def)
      have r1: "ring_inv (Suc n) z1"
        by (rule ring_grows [OF inv n g]) (simp_all add: f(1-3) False j)
      then have "unat (nextJobID z1) \<le> Suc n" "doneJobID z1 \<le> nextJobID z1"
        by (simp_all add: ring_inv_def)
      then show ?thesis unfolding z' using drained_ring [OF n _ w] by simp
    qed
  qed
qed


subsection \<open>Flushing\<close>

lemma add_frame_checksum_fields:
  assumes "add_frame_checksum ext z w job c = (z1, c1)"
  shows "doneJobID z1 = doneJobID z" "nextJobID z1 = nextJobID z" "jobIDMask z1 = jobIDMask z"
    "dstBuff (jobs z1 w') = dstBuff (jobs z w')"
    "c1 = (if checksum_due job then c + 4 else c)"
  using assms by (auto simp add: add_frame_checksum_def Let_def split: if_splits)

lemma flush_job_retires:
  assumes "flush_job z1 w job c outp = (z2, fl, out1)" "retires job c outp"
  shows "doneJobID z2 = doneJobID z1 + 1" "nextJobID z2 = nextJobID z1"
    "jobIDMask z2 = jobIDMask z1" "dstBuff (jobs z2 w) = g_nullBuffer"
    "w' \<noteq> w \<Longrightarrow> jobs z2 w' = jobs z1 w'"
    "c = dstFlushed job + (out_pos out1 - out_pos outp)" "fl = c"
  using assms by (auto simp add: flush_job_def retires_def Let_def split: if_splits)

lemma flush_job_keeps:
  assumes "flush_job z1 w job c outp = (z2, fl, out1)" "\<not> retires job c outp"
  shows "doneJobID z2 = doneJobID z1" "nextJobID z2 = nextJobID z1"
    "jobIDMask z2 = jobIDMask z1" "dstBuff (jobs z2 w') = dstBuff (jobs z1 w')"
  using assms by (auto simp add: flush_job_def retires_def Let_def split: if_splits)

lemma flush_return_fields:
  assumes "flush_return z2 job c fl = (k, z3)"
  shows "doneJobID z3 = doneJobID z2" "nextJobID z3 = nextJobID z2"
    "jobIDMask z3 = jobIDMask z2" "jobs z3 = jobs z2"
  using assms by (auto simp add: flush_return_def split: if_splits)

lemma flushProduced_error:
  assumes "ZSTDMT_flushProduced ext z outp b = Some (r, z', out')"
    "cSize (jobs z (doneJobID z AND jobIDMask z)) = Inl e"
  shows "r = Inl e" "out' = outp"
    "\<exists>zw. ZSTDMT_waitForAllJobsCompleted z = Some zw \<and> z' = ZSTDMT_releaseAllJobResources zw"
  using assms by (auto simp add: ZSTDMT_flushProduced_def Let_def split: if_splits)

lemma flushProduced_count:
  assumes "ZSTDMT_flushProduced ext z outp b = Some (r, z', out')"
    "cSize (jobs z (doneJobID z AND jobIDMask z)) = Inr c0"
  shows "\<exists>z1 c z2 fl k.
           add_frame_checksum ext z (doneJobID z AND jobIDMask z)
             (jobs z (doneJobID z AND jobIDMask z)) c0 = (z1, c)
           \<and> flush_job z1 (doneJobID z AND jobIDMask z)
               (jobs z (doneJobID z AND jobIDMask z)) c outp = (z2, fl, out')
           \<and> flush_return z2 (jobs z (doneJobID z AND jobIDMask z)) c fl = (k, z')
           \<and> r = Inr k"
  using assms
  by (auto simp add: ZSTDMT_flushProduced_def Let_def split: if_splits prod.splits)


lemma ring_retire:
  assumes inv: "ring_inv n z"
    and b: "start (dstBuff (jobs z (doneJobID z AND jobIDMask z))) \<noteq> NULL"
    and d: "doneJobID z' = doneJobID z + 1" and x: "nextJobID z' = nextJobID z"
    and m: "jobIDMask z' = jobIDMask z"
    and s: "start (dstBuff (jobs z' (doneJobID z AND jobIDMask z))) = NULL"
    and j: "\<And>w. w \<noteq> doneJobID z AND jobIDMask z
              \<Longrightarrow> dstBuff (jobs z' w) = dstBuff (jobs z w)"
  shows "ring_inv n z'"
proof -
  have "in_flight z (doneJobID z AND jobIDMask z)" using idle_slot [OF inv] b by blast
  then obtain i where "doneJobID z \<le> i" "i < nextJobID z" by (auto simp add: in_flight_def)
  then have lt: "doneJobID z < nextJobID z" by simp
  then have ult: "unat (doneJobID z) < unat (nextJobID z)" by (simp add: word_less_nat_alt)
  have "unat (nextJobID z) < 2 ^ 32" using unat_u32_lt [of "nextJobID z"] by simp
  then have suc: "unat (doneJobID z + 1) = unat (doneJobID z) + 1"
    using ult by (simp add: unat_succ_32)
  have a: "doneJobID z' \<le> nextJobID z'" using d x lt by (simp add: inc_le)
  have "unat (nextJobID z) - unat (doneJobID z) \<le> unat (jobIDMask z) + 1"
    using inv by (simp add: ring_inv_def)
  then have bd: "unat (nextJobID z') - unat (doneJobID z') \<le> unat (jobIDMask z') + 1"
    unfolding d x m suc by arith
  have c: "unat (nextJobID z') \<le> n" using inv x by (simp add: ring_inv_def)
  have e: "start (dstBuff (jobs z' w)) = NULL" if nf: "\<not> in_flight z' w" for w
  proof (cases "w = doneJobID z AND jobIDMask z")
    case True
    then show ?thesis using s by simp
  next
    case False
    have "\<not> in_flight z w"
    proof
      assume "in_flight z w"
      then obtain i where i: "doneJobID z \<le> i" "i < nextJobID z" "w = i AND jobIDMask z"
        by (auto simp add: in_flight_def)
      then have "i \<noteq> doneJobID z" using False by auto
      then have "doneJobID z < i" using i(1) by simp
      then have "doneJobID z + 1 \<le> i" by (rule inc_le)
      then have "in_flight z' w" using i d x m by (auto simp add: in_flight_def)
      then show False using nf by simp
    qed
    then show ?thesis using idle_slot [OF inv] j [OF False] by simp
  qed
  show ?thesis using a bd c e by (simp add: ring_inv_def)
qed

lemma ring_keep:
  assumes "ring_inv n z" "doneJobID z' = doneJobID z" "nextJobID z' = nextJobID z"
    "jobIDMask z' = jobIDMask z" "\<And>w. dstBuff (jobs z' w) = dstBuff (jobs z w)"
  shows "ring_inv n z'"
  using assms by (simp add: ring_inv_def in_flight_def)

lemma flush_ring:
  assumes inv: "ring_inv n z" and n: "n < 4294967296"
    and f: "ZSTDMT_flushProduced ext z outp b = Some (r, z', out')"
  shows "ring_inv n z'"
proof (cases "cSize (jobs z (doneJobID z AND jobIDMask z))")
  case (Inl e)
  obtain zw where w: "ZSTDMT_waitForAllJobsCompleted z = Some zw"
    and z': "z' = ZSTDMT_releaseAllJobResources zw"
    using flushProduced_error(3) [OF f Inl] by blast
  have "unat (nextJobID z) \<le> n" "doneJobID z \<le> nextJobID z"
    using inv by (simp_all add: ring_inv_def)
  then show ?thesis unfolding z' using drained_ring [OF n _ w] by simp
next
  case (Inr c0)
  let ?w = "doneJobID z AND jobIDMask z"
  obtain z1 c z2 fl k where
    s1: "add_frame_checksum ext z ?w (jobs z ?w) c0 = (z1, c)"
    and s2: "flush_job z1 ?w (jobs z ?w) c outp = (z2, fl, out')"
    and s3: "flush_return z2 (jobs z ?w) c fl = (k, z')"
    using flushProduced_count [OF f Inr] by blast
  note a = add_frame_checksum_fields [OF s1]
  note r = flush_return_fields [OF s3]
  show ?thesis
  proof (cases "retires (jobs z ?w) c outp")
    case True
    note q = flush_job_retires [OF s2 True]
    have b: "start (dstBuff (jobs z ?w)) \<noteq> NULL" using True by (simp add: retires_def)
    show ?thesis
    proof (rule ring_retire [OF inv b])
      show "doneJobID z' = doneJobID z + 1" by (simp add: r q a)
      show "nextJobID z' = nextJobID z" by (simp add: r q a)
      show "jobIDMask z' = jobIDMask z" by (simp add: r q a)
      show "start (dstBuff (jobs z' ?w)) = NULL" by (simp add: r q g_nullBuffer_def)
      show "dstBuff (jobs z' w) = dstBuff (jobs z w)" if "w \<noteq> ?w" for w
        using that by (simp add: r q(5) a)
    qed
  next
    case False
    note q = flush_job_keeps [OF s2 False]
    show ?thesis by (rule ring_keep [OF inv]) (simp_all add: r q a)
  qed
qed

subsection \<open>The invariant\<close>

lemma in_flight_empty: "doneJobID z = nextJobID z \<Longrightarrow> \<not> in_flight z w"
  by (auto simp add: in_flight_def)

lemma reach_ring: "reach n z \<Longrightarrow> n < 4294967296 \<Longrightarrow> ring_inv n z"
proof (induction rule: reach.induct)
  case (reach_idle z)
  then show ?case by (simp add: ring_inv_def)
next
  case (reach_create n z ext sz endFrame r z')
  then show ?case using create_ring [of n z ext sz endFrame r z'] by simp
next
  case (reach_flush n z ext outp blockToFlush r z' outp')
  then show ?case using flush_ring [of n z ext outp blockToFlush r z' outp'] by simp
next
  case (reach_worker n z i job)
  then have inv: "ring_inv n z" by simp
  have fl: "in_flight z (i AND jobIDMask z)"
    using reach_worker.hyps(2,3) by (auto simp add: in_flight_def)
  show ?case
    unfolding ring_inv_def
  proof (intro conjI allI impI)
    fix w
    assume "\<not> in_flight (z\<lparr>jobs := (jobs z)(i AND jobIDMask z := job)\<rparr>) w"
    then have nf: "\<not> in_flight z w" by (simp add: in_flight_def)
    then have "w \<noteq> i AND jobIDMask z" using fl by auto
    then show "start (dstBuff (jobs (z\<lparr>jobs := (jobs z)(i AND jobIDMask z := job)\<rparr>) w)) = NULL"
      using idle_slot [OF inv nf] by simp
  qed (use inv in \<open>simp_all add: ring_inv_def\<close>)
next
  case (reach_other n z z')
  then show ?case using ring_same [of n z z'] by simp
qed

lemma unat_and_mask: "unat ((x :: unsigned) AND mask k) = unat x mod 2 ^ k"
proof -
  have "x AND mask k = take_bit k x" by (simp only: take_bit_eq_mask)
  then have "unat (x AND mask k) = take_bit k (unat x)" by (simp only: unsigned_take_bit_eq)
  then show ?thesis by (simp add: take_bit_eq_mod)
qed

lemma unat_mask_lt: "unat (mask k :: unsigned) < 2 ^ k"
proof -
  have "unat (mask k :: unsigned) = unat (mask k :: unsigned) mod 2 ^ k"
    using unat_and_mask [of "mask k" k] by simp
  then show ?thesis by (metis mod_less_divisor zero_less_numeral zero_less_power)
qed

lemma fresh_slot:
  assumes inv: "ring_inv n z" and g: "\<not> nextJobID z > doneJobID z + jobIDMask z"
    and m: "jobIDMask z = mask k"
  shows "\<not> in_flight z (nextJobID z AND jobIDMask z)"
proof
  assume "in_flight z (nextJobID z AND jobIDMask z)"
  then obtain i where i: "doneJobID z \<le> i" "i < nextJobID z"
    "nextJobID z AND jobIDMask z = i AND jobIDMask z" by (auto simp add: in_flight_def)
  have "unat (nextJobID z) \<le> unat (doneJobID z + jobIDMask z)"
    using g by (simp add: word_le_nat_alt not_less)
  also have "\<dots> \<le> unat (doneJobID z) + unat (jobIDMask z)"
    by (simp add: unat_word_ariths)
  finally have room: "unat (nextJobID z) < unat (doneJobID z) + 2 ^ k"
    using unat_mask_lt [of k] m by simp
  have lo: "unat (doneJobID z) \<le> unat i" and hi: "unat i < unat (nextJobID z)"
    using i by (simp_all add: word_le_nat_alt word_less_nat_alt)
  have "unat (nextJobID z) mod 2 ^ k = unat i mod 2 ^ k"
    using i(3) m unat_and_mask [of "nextJobID z" k] unat_and_mask [of i k] by simp
  then have "2 ^ k dvd unat (nextJobID z) - unat i"
    using hi mod_eq_dvd_iff_nat [of "unat i" "unat (nextJobID z)" "2 ^ k"] by simp
  then have "2 ^ k \<le> unat (nextJobID z) - unat i"
    using hi by (simp add: dvd_imp_le)
  then show False using room lo hi by linarith
qed


lemma createCompressionJob_doneJobID:
  assumes c: "ZSTDMT_createCompressionJob ext z sz e = Some (r, z')"
  shows "case r of
           Inr _ \<Rightarrow> doneJobID z' = doneJobID z
         | Inl _ \<Rightarrow> jobs z' = (\<lambda>_. zero_job) \<and> nextJobID z' = nextJobID z + 1
                    \<and> doneJobID z' = (if doneJobID z < nextJobID z + 1 then nextJobID z + 1
                                       else doneJobID z)"
proof (cases "nextJobID z > doneJobID z + jobIDMask z")
  case True
  then show ?thesis using c by (auto simp add: ZSTDMT_createCompressionJob_def)
next
  case g: False
  show ?thesis
  proof (cases "jobReady z = 0")
    case False
    then show ?thesis using c g
      by (auto simp add: ZSTDMT_createCompressionJob_def split: if_splits)
  next
    case True
    obtain z1 ok where st: "stage_job ext z sz e = (z1, ok)" by (cases "stage_job ext z sz e")
    note f = stage_job_fields [OF st]
    show ?thesis
    proof (cases ok)
      case True
      then show ?thesis using c g \<open>jobReady z = 0\<close> st f(1)
        by (auto simp add: ZSTDMT_createCompressionJob_def split: if_splits)
    next
      case False
      then obtain zw where w: "ZSTDMT_waitForAllJobsCompleted z1 = Some zw"
        and z': "z' = ZSTDMT_releaseAllJobResources zw" and r: "r = Inl memory_allocation"
        using c g \<open>jobReady z = 0\<close> st by (auto simp add: ZSTDMT_createCompressionJob_def)
      show ?thesis using wait_result [OF w] f(1,3) False by (simp add: z' r)
    qed
  qed
qed

lemma flushProduced_doneJobID:
  assumes f: "ZSTDMT_flushProduced ext z outp b = Some (r, z', out')"
  shows "case r of
           Inr _ \<Rightarrow>
             doneJobID z' = doneJobID z
             \<or> (doneJobID z' = doneJobID z + 1
                \<and> jobCompleted (jobs z (doneJobID z AND jobIDMask z)) \<noteq> 0
                \<and> add_cSize (cSize (jobs z (doneJobID z AND jobIDMask z)))
                     (if checksum_due (jobs z (doneJobID z AND jobIDMask z)) then 4 else 0)
                   = Inr (dstFlushed (jobs z (doneJobID z AND jobIDMask z))
                          + (out_pos out' - out_pos outp))
                \<and> dstBuff (jobs z' (doneJobID z AND jobIDMask z)) = g_nullBuffer)
         | Inl e \<Rightarrow>
             cSize (jobs z (doneJobID z AND jobIDMask z)) = Inl e
             \<and> jobs z' = (\<lambda>_. zero_job) \<and> out' = outp
             \<and> doneJobID z' = (if doneJobID z < nextJobID z then nextJobID z else doneJobID z)"
proof (cases "cSize (jobs z (doneJobID z AND jobIDMask z))")
  case (Inl e)
  obtain zw where w: "ZSTDMT_waitForAllJobsCompleted z = Some zw"
    and z': "z' = ZSTDMT_releaseAllJobResources zw"
    using flushProduced_error(3) [OF f Inl] by blast
  show ?thesis
    using flushProduced_error(1,2) [OF f Inl] wait_result [OF w] Inl by (simp add: z')
next
  case (Inr c0)
  let ?w = "doneJobID z AND jobIDMask z"
  obtain z1 c z2 fl k where
    s1: "add_frame_checksum ext z ?w (jobs z ?w) c0 = (z1, c)"
    and s2: "flush_job z1 ?w (jobs z ?w) c outp = (z2, fl, out')"
    and s3: "flush_return z2 (jobs z ?w) c fl = (k, z')"
    and r: "r = Inr k"
    using flushProduced_count [OF f Inr] by blast
  note a = add_frame_checksum_fields [OF s1]
  note t = flush_return_fields [OF s3]
  show ?thesis
  proof (cases "retires (jobs z ?w) c outp")
    case True
    note q = flush_job_retires [OF s2 True]
    have "jobCompleted (jobs z ?w) \<noteq> 0" using True by (simp add: retires_def)
    moreover have "add_cSize (cSize (jobs z ?w)) (if checksum_due (jobs z ?w) then 4 else 0)
                   = Inr (dstFlushed (jobs z ?w) + (out_pos out' - out_pos outp))"
      using q(6) a(5) Inr
      by (cases "checksum_due (jobs z ?w)") (simp_all add: add_cSize_def)
    ultimately show ?thesis by (simp add: r t q a)
  next
    case False
    note q = flush_job_keeps [OF s2 False]
    show ?thesis by (simp add: r t q a)
  qed
qed


subsection \<open>The ring below the wrap\<close>

text \<open>
  For every state of a frame in which \<^verbatim>\<open>nextJobID\<close> has not wrapped: the counters are in order
  and at most \<^verbatim>\<open>jobIDMask + 1\<close> apart, and with a mask \<open>2^k - 1\<close> the slot that
  \<^verbatim>\<open>ZSTDMT_createCompressionJob\<close> fills when the ring is not full holds no destination buffer.
  \<^verbatim>\<open>ZSTDMT_createCompressionJob\<close> returns 0 and changes nothing when
  \<^verbatim>\<open>nextJobID > doneJobID + jobIDMask\<close>; it leaves \<^verbatim>\<open>doneJobID\<close> alone unless it fails, and then
  it has waited for all jobs and cleared the table.  \<^verbatim>\<open>ZSTDMT_flushProduced\<close> increments
  \<^verbatim>\<open>doneJobID\<close> by one only for a completed job whose bytes are all flushed, and releases its
  buffer; for a job that holds an error it waits for all jobs and clears the table.
\<close>

lemma job_ring_below_wrap:
  "(reach n z \<and> n < 2 ^ 32 \<longrightarrow>
      doneJobID z \<le> nextJobID z
      \<and> unat (nextJobID z) - unat (doneJobID z) \<le> unat (jobIDMask z) + 1
      \<and> (jobIDMask z = mask k \<and> \<not> nextJobID z > doneJobID z + jobIDMask z \<longrightarrow>
           start (dstBuff (jobs z (nextJobID z AND jobIDMask z))) = NULL))
   \<and> (nextJobID zc > doneJobID zc + jobIDMask zc \<longrightarrow>
        ZSTDMT_createCompressionJob ext zc sz endFrame = Some (Inr 0, zc))
   \<and> (ZSTDMT_createCompressionJob ext zc sz endFrame = Some (rc, zc') \<longrightarrow>
        (case rc of
           Inr _ \<Rightarrow> doneJobID zc' = doneJobID zc
         | Inl _ \<Rightarrow> jobs zc' = (\<lambda>_. zero_job) \<and> nextJobID zc' = nextJobID zc + 1
                    \<and> doneJobID zc' = (if doneJobID zc < nextJobID zc + 1
                                        then nextJobID zc + 1 else doneJobID zc)))
   \<and> (ZSTDMT_flushProduced ext zf outp blockToFlush = Some (rf, zf', outp') \<longrightarrow>
        (case rf of
           Inr _ \<Rightarrow>
             doneJobID zf' = doneJobID zf
             \<or> (doneJobID zf' = doneJobID zf + 1
                \<and> jobCompleted (jobs zf (doneJobID zf AND jobIDMask zf)) \<noteq> 0
                \<and> add_cSize (cSize (jobs zf (doneJobID zf AND jobIDMask zf)))
                     (if checksum_due (jobs zf (doneJobID zf AND jobIDMask zf)) then 4 else 0)
                   = Inr (dstFlushed (jobs zf (doneJobID zf AND jobIDMask zf))
                          + (out_pos outp' - out_pos outp))
                \<and> dstBuff (jobs zf' (doneJobID zf AND jobIDMask zf)) = g_nullBuffer)
         | Inl e \<Rightarrow>
             cSize (jobs zf (doneJobID zf AND jobIDMask zf)) = Inl e
             \<and> jobs zf' = (\<lambda>_. zero_job) \<and> outp' = outp
             \<and> doneJobID zf' = (if doneJobID zf < nextJobID zf then nextJobID zf
                                 else doneJobID zf)))"
proof (intro conjI impI)
  assume "reach n z \<and> n < 2 ^ 32"
  then have inv: "ring_inv n z" using reach_ring [of n z] by simp
  then show "doneJobID z \<le> nextJobID z"
    and "unat (nextJobID z) - unat (doneJobID z) \<le> unat (jobIDMask z) + 1"
    by (simp_all add: ring_inv_def)
  assume h: "jobIDMask z = mask k \<and> \<not> nextJobID z > doneJobID z + jobIDMask z"
  have g: "\<not> nextJobID z > doneJobID z + jobIDMask z" using h by (rule conjunct2)
  have m: "jobIDMask z = mask k" using h by (rule conjunct1)
  show "start (dstBuff (jobs z (nextJobID z AND jobIDMask z))) = NULL"
    by (rule idle_slot [OF inv fresh_slot [OF inv g m]])
next
  assume "nextJobID zc > doneJobID zc + jobIDMask zc"
  then show "ZSTDMT_createCompressionJob ext zc sz endFrame = Some (Inr 0, zc)"
    by (simp add: ZSTDMT_createCompressionJob_def)
next
  assume "ZSTDMT_createCompressionJob ext zc sz endFrame = Some (rc, zc')"
  then show "case rc of
           Inr _ \<Rightarrow> doneJobID zc' = doneJobID zc
         | Inl _ \<Rightarrow> jobs zc' = (\<lambda>_. zero_job) \<and> nextJobID zc' = nextJobID zc + 1
                    \<and> doneJobID zc' = (if doneJobID zc < nextJobID zc + 1
                                        then nextJobID zc + 1 else doneJobID zc)"
    by (rule createCompressionJob_doneJobID)
next
  assume "ZSTDMT_flushProduced ext zf outp blockToFlush = Some (rf, zf', outp')"
  then show "case rf of
           Inr _ \<Rightarrow>
             doneJobID zf' = doneJobID zf
             \<or> (doneJobID zf' = doneJobID zf + 1
                \<and> jobCompleted (jobs zf (doneJobID zf AND jobIDMask zf)) \<noteq> 0
                \<and> add_cSize (cSize (jobs zf (doneJobID zf AND jobIDMask zf)))
                     (if checksum_due (jobs zf (doneJobID zf AND jobIDMask zf)) then 4 else 0)
                   = Inr (dstFlushed (jobs zf (doneJobID zf AND jobIDMask zf))
                          + (out_pos outp' - out_pos outp))
                \<and> dstBuff (jobs zf' (doneJobID zf AND jobIDMask zf)) = g_nullBuffer)
         | Inl e \<Rightarrow>
             cSize (jobs zf (doneJobID zf AND jobIDMask zf)) = Inl e
             \<and> jobs zf' = (\<lambda>_. zero_job) \<and> outp' = outp
             \<and> doneJobID zf' = (if doneJobID zf < nextJobID zf then nextJobID zf
                                 else doneJobID zf)"
    by (rule flushProduced_doneJobID)
qed


subsection \<open>The entry points stay within these states\<close>

lemma fill_input_ring:
  assumes "fill_input ext z inp e = (z1, inp1, e1, p, go)"
  shows "jobs z1 = jobs z" "jobIDMask z1 = jobIDMask z" "doneJobID z1 = doneJobID z"
    "nextJobID z1 = nextJobID z"
  using assms
  by (auto simp add: fill_input_def Let_def split: if_splits prod.splits)

lemma create_or_skip_reach:
  assumes r: "reach n z"
    and c: "(if b then ZSTDMT_createCompressionJob ext z sz e else Some (Inr 0, z))
              = Some (rc, z1)"
  shows "\<exists>m\<le>Suc n. reach m z1"
proof (cases b)
  case True
  then have "reach (Suc n) z1" using c reach_create [OF r] by simp
  then show ?thesis by blast
next
  case False
  then have "reach n z1" using c r by simp
  then show ?thesis using le_Suc_eq by blast
qed

lemma flushStream_internal_reach:
  assumes r: "reach n z"
    and f: "ZSTDMT_flushStream_internal ext z outp endFrame = Some (rf, z', outp')"
  shows "\<exists>m\<le>Suc n. reach m z'"
proof -
  let ?c = "(if jobReady z \<noteq> 0 \<or> filled (inBuff z) - prefixSize z > 0
                 \<or> (endFrame \<noteq> 0 \<and> frameEnded z = 0)
             then ZSTDMT_createCompressionJob ext z (filled (inBuff z) - prefixSize z) endFrame
             else Some (Inr 0, z))"
  obtain rc z1 where c: "?c = Some (rc, z1)"
    using f by (cases ?c) (auto simp add: ZSTDMT_flushStream_internal_def Let_def)
  obtain m where m: "m \<le> Suc n" "reach m z1"
    using create_or_skip_reach [OF r c] by blast
  show ?thesis
  proof (cases rc)
    case (Inl a)
    then have "z' = z1" using f c by (simp add: ZSTDMT_flushStream_internal_def Let_def)
    then show ?thesis using m by blast
  next
    case (Inr k)
    then have "ZSTDMT_flushProduced ext z1 outp 1 = Some (rf, z', outp')"
      using f c by (simp add: ZSTDMT_flushStream_internal_def Let_def)
    then have "reach m z'" using reach_flush [OF m(2)] by blast
    then show ?thesis using m(1) by blast
  qed
qed

lemma compressStream_generic_reach:
  assumes r: "reach n z" and n: "n < 4294967296"
    and g: "ZSTDMT_compressStream_generic ext z outp inp e = Some (rg, z', outp', inp')"
    and o: "\<forall>w. start (dstBuff (fst (snd (one_shot ext z (dst outp + out_pos outp)
                   (out_size outp - out_pos outp) (in_src inp + in_pos inp)
                   (in_size inp - in_pos inp))) w)) = NULL"
  shows "\<exists>m\<le>Suc n. reach m z'"
proof (cases "singleBlockingThread z \<noteq> 0")
  case True
  then have "jobs z' = jobs z" "jobIDMask z' = jobIDMask z" "doneJobID z' = doneJobID z"
    "nextJobID z' = nextJobID z"
    using g by (auto simp add: ZSTDMT_compressStream_generic_def Let_def split: prod.splits)
  then have "reach n z'" using reach_other [OF r] by simp
  then show ?thesis using le_Suc_eq by blast
next
  case sb: False
  show ?thesis
  proof (cases "frameEnded z \<noteq> 0 \<and> e = ZSTD_e_continue")
    case True
    then have "z' = z" using g sb by (simp add: ZSTDMT_compressStream_generic_def Let_def)
    then show ?thesis using r le_Suc_eq by blast
  next
    case fe: False
    show ?thesis
    proof (cases "nextJobID z = 0 \<and> filled (inBuff z) = 0 \<and> e = ZSTD_e_end
              \<and> out_size outp - out_pos outp
                   \<ge> ZSTD_compressBound ext (in_size inp - in_pos inp)")
      case True
      have "doneJobID z \<le> nextJobID z" using reach_ring [OF r n] by (simp add: ring_inv_def)
      then have d: "doneJobID z = 0" using True by simp
      have "doneJobID z' = nextJobID z' \<and> nextJobID z' = 0
            \<and> (\<forall>w. start (dstBuff (jobs z' w)) = NULL)"
        using g sb fe True o d
        by (auto simp add: ZSTDMT_compressStream_generic_def Let_def
            split: prod.splits sum.splits)
      then have "reach 0 z'" using reach_idle [of z'] by simp
      then show ?thesis by blast
    next
      case no: False
      obtain m1 inp1 e1 p go where fi: "fill_input ext z inp e = (m1, inp1, e1, p, go)"
        by (cases "fill_input ext z inp e")
      have r1: "reach n m1" using reach_other [OF r] fill_input_ring [OF fi] by simp
      show ?thesis
      proof (cases go)
        case False
        then have "z' = m1" using g sb fe no fi
          by (simp add: ZSTDMT_compressStream_generic_def Let_def)
        then show ?thesis using r1 le_Suc_eq by blast
      next
        case True
        let ?c = "(if jobReady m1 \<noteq> 0
                      \<or> filled (inBuff m1) \<ge> prefixSize z + targetSectionSize z
                      \<or> (e1 \<noteq> ZSTD_e_continue \<and> filled (inBuff m1) > 0)
                      \<or> (e1 = ZSTD_e_end \<and> frameEnded m1 = 0)
                   then ZSTDMT_createCompressionJob ext m1
                          (min (filled (inBuff m1) - prefixSize m1) (targetSectionSize m1))
                          (if e1 = ZSTD_e_end then 1 else 0)
                   else Some (Inr 0, m1))"
        have g': "(case ?c of
               None \<Rightarrow> None
             | Some (Inl e, m2) \<Rightarrow> Some (Inl e, m2, outp, inp1)
             | Some (Inr _, m2) \<Rightarrow>
                 (case ZSTDMT_flushProduced ext m2 outp (if p = 0 then 1 else 0) of
                    None \<Rightarrow> None
                  | Some (remainingToFlush, m3, output1) \<Rightarrow>
                      if in_pos inp1 < in_size inp1
                      then Some (case remainingToFlush of
                                   Inl e \<Rightarrow> Inl e
                                 | Inr k \<Rightarrow> Inr (max k 1), m3, output1, inp1)
                      else Some (remainingToFlush, m3, output1, inp1)))
             = Some (rg, z', outp', inp')"
          using g sb fe no fi True
          by (simp add: ZSTDMT_compressStream_generic_def Let_def)
        obtain rc m2 where c: "?c = Some (rc, m2)"
          using g' by (cases ?c) auto
        obtain m where m: "m \<le> Suc n" "reach m m2"
          using create_or_skip_reach [OF r1 c] by blast
        show ?thesis
        proof (cases rc)
          case (Inl a)
          then have "z' = m2" using g' c by simp
          then show ?thesis using m by blast
        next
          case (Inr k)
          then obtain rf where "ZSTDMT_flushProduced ext m2 outp (if p = 0 then 1 else 0)
                                  = Some (rf, z', outp')"
            using g' c by (auto split: option.splits if_splits)
          then have "reach m z'" using reach_flush [OF m(2)] by blast
          then show ?thesis using m(1) by blast
        qed
      qed
    qed
  qed
qed

lemma init_frame_ring:
  "doneJobID (init_frame ext z prm) = 0" "nextJobID (init_frame ext z prm) = 0"
  "jobs (init_frame ext z prm) = jobs z" "jobIDMask (init_frame ext z prm) = jobIDMask z"
  by (simp_all add: init_frame_def Let_def)

lemma set_dictionary_ring:
  "doneJobID (set_dictionary z d l c) = doneJobID z"
  "nextJobID (set_dictionary z d l c) = nextJobID z"
  "jobs (set_dictionary z d l c) = jobs z" "jobIDMask (set_dictionary z d l c) = jobIDMask z"
  by (simp_all add: set_dictionary_def)

lemma initCStream_reach:
  assumes r: "reach n z" and n: "n < 4294967296"
    and q: "allJobsCompleted z = 0 \<or> doneJobID z = nextJobID z"
    and i: "ZSTDMT_initCStream_internal ext z dict dictSize dictMode cd prm pledged
              = Some (ri, z')"
  shows "\<exists>m\<le>n. reach m z'"
proof (cases "pledged \<le> ucast (ZSTDMT_JOBSIZE_MIN ext)")
  case True
  then have "z' = z\<lparr>singleBlockingThread := 1\<rparr>"
    using i by (simp add: ZSTDMT_initCStream_internal_def Let_def)
  then have "reach n z'" using reach_other [OF r] by simp
  then show ?thesis by blast
next
  case False
  let ?z1 = "z\<lparr>singleBlockingThread := 0\<rparr>"
  have inv: "ring_inv n z" by (rule reach_ring [OF r n])
  obtain z2 where dp: "drain_previous ?z1 = Some z2"
    using i False by (cases "drain_previous ?z1")
      (auto simp add: ZSTDMT_initCStream_internal_def Let_def)
  have z2: "doneJobID z2 = nextJobID z2 \<and> nextJobID z2 = nextJobID z
            \<and> (\<forall>w. start (dstBuff (jobs z2 w)) = NULL)"
  proof (cases "allJobsCompleted z = 0")
    case True
    then obtain zw where w: "ZSTDMT_waitForAllJobsCompleted ?z1 = Some zw"
      and e: "z2 = (ZSTDMT_releaseAllJobResources zw)\<lparr>allJobsCompleted := 1\<rparr>"
      using dp by (auto simp add: drain_previous_def)
    have "doneJobID z \<le> nextJobID z" using inv by (simp add: ring_inv_def)
    then show ?thesis using wait_result [OF w] by (auto simp add: e)
  next
    case False
    then have e: "z2 = ?z1" and d: "doneJobID z = nextJobID z"
      using dp q by (auto simp add: drain_previous_def)
    have "start (dstBuff (jobs z w)) = NULL" for w
      using idle_slot [OF inv in_flight_empty [OF d]] .
    then show ?thesis using d by (simp add: e)
  qed
  let ?z4 = "set_dictionary (z2\<lparr>params := adjust_jobSize prm, frameContentSize := pledged\<rparr>)
               dict (ZSTD_createCDict_advanced ext dict dictSize dictMode) cd"
  have "z' = ?z4 \<or> z' = init_frame ext ?z4 (adjust_jobSize prm)"
    using i False dp by (auto simp add: ZSTDMT_initCStream_internal_def Let_def split: if_splits)
  then show ?thesis
  proof
    assume "z' = ?z4"
    then have "doneJobID z' = nextJobID z'" "\<forall>w. start (dstBuff (jobs z' w)) = NULL"
      "nextJobID z' = nextJobID z"
      using z2 by (simp_all add: set_dictionary_ring)
    then have "reach (unat (nextJobID z)) z'" using reach_idle [of z'] by simp
    moreover have "unat (nextJobID z) \<le> n" using inv by (simp add: ring_inv_def)
    ultimately show ?thesis by blast
  next
    assume "z' = init_frame ext ?z4 (adjust_jobSize prm)"
    then have "doneJobID z' = nextJobID z'" "\<forall>w. start (dstBuff (jobs z' w)) = NULL"
      "nextJobID z' = 0"
      using z2 by (simp_all add: init_frame_ring set_dictionary_ring)
    then have "reach 0 z'" using reach_idle [of z'] by simp
    then show ?thesis by blast
  qed
qed


end
